theory Spec2Isabelle
  imports Complex_Main
begin

section \<open>Three-vectors and 3-by-3 matrices over the reals\<close>

text \<open>
  The tensors of \<^verbatim>\<open>hegn/models/hegn.py\<close> hold 32-bit floats.  The development reads
  them as real numbers: every channel of an equivariant feature is a 3-vector, and a
  matrix of the alignment stage is three rows of three reals.  Rounding, underflow and
  overflow of the floats are not modelled: a norm of a huge vector is a real number
  here, where the floats give an infinity and, after a division, a NaN.  The only
  non-finite results the development knows are the quotient by a denominator that is
  exactly zero and the mean of no element; they are values of their own, see \<open>tdiv\<close>.
\<close>

type_synonym vec3 = "real \<times> real \<times> real"
type_synonym mat3 = "vec3 \<times> vec3 \<times> vec3"

fun vx :: "vec3 \<Rightarrow> real" where "vx (a, b, c) = a"
fun vy :: "vec3 \<Rightarrow> real" where "vy (a, b, c) = b"
fun vz :: "vec3 \<Rightarrow> real" where "vz (a, b, c) = c"

fun dot3 :: "vec3 \<Rightarrow> vec3 \<Rightarrow> real" where
  "dot3 (a, b, c) (d, e, f) = a * d + b * e + c * f"

definition norm3 :: "vec3 \<Rightarrow> real" where
  "norm3 v = sqrt (dot3 v v)"

fun vadd :: "vec3 \<Rightarrow> vec3 \<Rightarrow> vec3" where
  "vadd (a, b, c) (d, e, f) = (a + d, b + e, c + f)"

fun vsub :: "vec3 \<Rightarrow> vec3 \<Rightarrow> vec3" where
  "vsub (a, b, c) (d, e, f) = (a - d, b - e, c - f)"

fun smul :: "real \<Rightarrow> vec3 \<Rightarrow> vec3" where
  "smul k (a, b, c) = (k * a, k * b, k * c)"

definition vzero :: vec3 where
  "vzero = (0, 0, 0)"

definition vsum :: "vec3 list \<Rightarrow> vec3" where
  "vsum vs = foldr vadd vs vzero"

definition eye3 :: mat3 where
  "eye3 = ((1, 0, 0), (0, 1, 0), (0, 0, 1))"

fun mat_T :: "mat3 \<Rightarrow> mat3" where
  "mat_T ((a, b, c), (d, e, f), (g, h, i)) = ((a, d, g), (b, e, h), (c, f, i))"

fun matvec :: "mat3 \<Rightarrow> vec3 \<Rightarrow> vec3" where
  "matvec (r0, r1, r2) v = (dot3 r0 v, dot3 r1 v, dot3 r2 v)"

fun matmul :: "mat3 \<Rightarrow> mat3 \<Rightarrow> mat3" where
  "matmul (r0, r1, r2) N =
     (case mat_T N of (c0, c1, c2) \<Rightarrow>
        ((dot3 r0 c0, dot3 r0 c1, dot3 r0 c2),
         (dot3 r1 c0, dot3 r1 c1, dot3 r1 c2),
         (dot3 r2 c0, dot3 r2 c1, dot3 r2 c2)))"

fun mat_sub :: "mat3 \<Rightarrow> mat3 \<Rightarrow> mat3" where
  "mat_sub (r0, r1, r2) (s0, s1, s2) = (vsub r0 s0, vsub r1 s1, vsub r2 s2)"

fun det3 :: "mat3 \<Rightarrow> real" where
  "det3 ((a, b, c), (d, e, f), (g, h, i)) =
     a * (e * i - f * h) - b * (d * i - f * g) + c * (d * h - e * g)"

fun diag3 :: "vec3 \<Rightarrow> mat3" where
  "diag3 (a, b, c) = ((a, 0, 0), (0, b, 0), (0, 0, c))"

fun diagonal :: "mat3 \<Rightarrow> vec3" where
  "diagonal ((a, b, c), (d, e, f), (g, h, i)) = (a, e, i)"

definition orthogonal3 :: "mat3 \<Rightarrow> bool" where
  "orthogonal3 M \<longleftrightarrow> matmul (mat_T M) M = eye3 \<and> matmul M (mat_T M) = eye3"


section \<open>Errors and non-finite quotients\<close>

text \<open>
  A Python exception is a value of \<open>error\<close>.  A tensor division whose denominator is
  zero raises nothing: it stores an infinity or a NaN.  \<open>tdiv\<close> is the division of two
  real numbers with that outcome kept apart from the finite quotients; it is not the
  division of two floats, which is non-finite on overflow as well.
\<close>

datatype error = ShapeError | IndexError | ZeroDivisionError | RuntimeError

datatype tfloat = Finite real | PosInf | NegInf | NaN

definition tdiv :: "real \<Rightarrow> real \<Rightarrow> tfloat" where
  "tdiv a b =
     (if b \<noteq> 0 then Finite (a / b)
      else if a = 0 then NaN
      else if 0 < a then PosInf else NegInf)"

section \<open>Alignment\<close>

text \<open>
  \<^verbatim>\<open>Alignment.forward(fx, fy)\<close>, lines 113 to 118.  A fused descriptor of shape
  \<^verbatim>\<open>[B, C, 3]\<close> is a list (batch) of lists (channels) of 3-vectors, so
  \<^verbatim>\<open>fx[b, c, d]\<close> is component \<open>d\<close> of \<open>fx ! b ! c\<close>.  The two descriptors come
  from the same aggregation layer and have the same shape; the model is not meant for
  unequal ones.

  \<^verbatim>\<open>torch.linalg.svd\<close> is a library routine whose factors are not unique; it is a
  parameter \<open>svd\<close> of the model, and \<open>is_svd\<close> says what the library promises of its
  result \<^verbatim>\<open>(U, S, Vh)\<close>: orthogonal factors, singular values that are non-negative
  and in descending order, and \<^verbatim>\<open>H = U diag(S) Vh\<close>.
\<close>

definition einsum_cd_ce :: "vec3 list \<Rightarrow> vec3 list \<Rightarrow> mat3" where
  \<comment> \<open>\<^verbatim>\<open>torch.einsum('bcd,bce->bde', fx, fy)\<close> for one batch element.\<close>
  "einsum_cd_ce fx fy =
     (let s = (\<lambda>p q. sum_list (map2 (\<lambda>u v. p u * q v) fx fy))
      in ((s vx vx, s vx vy, s vx vz),
          (s vy vx, s vy vy, s vy vz),
          (s vz vx, s vz vy, s vz vz)))"

definition norm_dim1 :: "(vec3 \<Rightarrow> real) \<Rightarrow> vec3 list \<Rightarrow> real" where
  \<comment> \<open>\<^verbatim>\<open>torch.norm(f, dim=1)[b, d]\<close>: the 2-norm over the channel axis of component \<open>d\<close>.\<close>
  "norm_dim1 d f = sqrt (sum_list (map (\<lambda>v. (d v)\<^sup>2) f))"

definition is_svd :: "mat3 \<Rightarrow> mat3 \<times> vec3 \<times> mat3 \<Rightarrow> bool" where
  "is_svd H usv =
     (case usv of (U, s, Vh) \<Rightarrow>
        orthogonal3 U \<and> orthogonal3 Vh \<and>
        vx s \<ge> vy s \<and> vy s \<ge> vz s \<and> vz s \<ge> 0 \<and>
        H = matmul (matmul U (diag3 s)) Vh)"

definition svd_of_orthogonal :: "mat3 \<Rightarrow> mat3 \<times> vec3 \<times> mat3" where
  \<comment> \<open>A decomposition that is a singular value decomposition of every orthogonal matrix:
      \<^verbatim>\<open>H = I diag(1, 1, 1) H\<close>.\<close>
  "svd_of_orthogonal H = (eye3, (1, 1, 1), H)"

definition Alignment_sample ::
  "(mat3 \<Rightarrow> mat3 \<times> vec3 \<times> mat3) \<Rightarrow> vec3 list \<Rightarrow> vec3 list \<Rightarrow> mat3 \<times> tfloat list" where
  "Alignment_sample svd fx fy =
     (let H = einsum_cd_ce fx fy;
          (u, s, v) = svd H;
          R = matmul u v;
          S = map (\<lambda>d. tdiv (norm_dim1 d fy) (norm_dim1 d fx)) [vx, vy, vz]
      in (R, S))"

definition Alignment_forward ::
  "(mat3 \<Rightarrow> mat3 \<times> vec3 \<times> mat3) \<Rightarrow> vec3 list list \<Rightarrow> vec3 list list
     \<Rightarrow> mat3 list \<times> tfloat list list" where
  "Alignment_forward svd fx fy =
     (let out = map2 (Alignment_sample svd) fx fy
      in (map fst out, map snd out))"

text \<open>
  The scale as the specification words it: one ratio of 3-vector norms per channel.
\<close>

definition spec_scale_per_channel :: "vec3 list \<Rightarrow> vec3 list \<Rightarrow> tfloat list" where
  "spec_scale_per_channel fx fy = map2 (\<lambda>u v. tdiv (norm3 v) (norm3 u)) fx fy"

section \<open>Invariant mapping and subset selection\<close>

text \<open>
  \<^verbatim>\<open>InvariantMapping.forward(fx, fy, topk)\<close>, lines 82 to 99.  An equivariant feature
  tensor of shape \<^verbatim>\<open>[B, C, 3, N]\<close> is a list over the batch of lists over the points
  of lists over the channels of 3-vectors: \<^verbatim>\<open>fx[b, c, :, n]\<close> is \<open>fx ! b ! n ! c\<close>.
  Every step of the module works on one batch element at a time.  The two tensors of a
  block have the same shape; the model is not meant for unequal ones.
\<close>

type_synonym feat = "vec3 list list"

definition mean_dim1 :: "vec3 list \<Rightarrow> vec3" where
  \<comment> \<open>\<^verbatim>\<open>torch.mean(fx, dim=1)[b, :, n]\<close>: the mean of the channels of one point.\<close>
  "mean_dim1 p = smul (1 / real (length p)) (vsum p)"

definition par_denominator :: "vec3 \<Rightarrow> real" where
  \<comment> \<open>\<^verbatim>\<open>torch.norm(fx_mean, dim=1) + 1e-6\<close>\<close>
  "par_denominator m = norm3 m + 1 / 1000000"

definition par :: "vec3 \<Rightarrow> vec3" where
  \<comment> \<open>\<^verbatim>\<open>fx_par = fx_mean / (torch.norm(fx_mean, dim=1)... + 1e-6)\<close>\<close>
  "par m = (vx m / par_denominator m, vy m / par_denominator m, vz m / par_denominator m)"

definition phi :: "vec3 list \<Rightarrow> real list" where
  \<comment> \<open>\<^verbatim>\<open>torch.einsum('bcdn,bdn->bnc', fx, fx_par)[b, n]\<close>\<close>
  "phi p = map (\<lambda>v. dot3 v (par (mean_dim1 p))) p"

definition softmax :: "real list \<Rightarrow> real list" where
  "softmax xs = map (\<lambda>x. exp x / sum_list (map exp xs)) xs"

definition Sc :: "feat \<Rightarrow> feat \<Rightarrow> real list" where
  \<comment> \<open>\<^verbatim>\<open>F.softmax(torch.einsum('bnc,bnc->bn', phi_x, phi_y), dim=-1)[b]\<close>\<close>
  "Sc fx fy = softmax (map2 (\<lambda>p q. sum_list (map2 (*) (phi p) (phi q))) fx fy)"




fun sequence :: "(error + 'a) list \<Rightarrow> error + 'a list" where
  "sequence [] = Inr []"
| "sequence (r # rs) =
     (case r of
        Inl e \<Rightarrow> Inl e
      | Inr v \<Rightarrow> (case sequence rs of Inl e \<Rightarrow> Inl e | Inr vs \<Rightarrow> Inr (v # vs)))"


definition rotate_feat :: "mat3 \<Rightarrow> feat \<Rightarrow> feat" where
  \<comment> \<open>Every channel vector of every point turned by the same matrix.\<close>
  "rotate_feat R fx = map (map (matvec R)) fx"

section \<open>Cross-context attention\<close>

text \<open>
  \<^verbatim>\<open>CrossContext\<close>, lines 18 to 65.  For one batch element and one point \<open>n\<close>, the
  query \<^verbatim>\<open>Qx[b, :, :, n]\<close> is a list over the channels of 3-vectors, and the key and
  the value \<^verbatim>\<open>Ky[b, :, :, n, :]\<close>, \<^verbatim>\<open>Vy[b, :, :, n, :]\<close> are lists over the
  neighbours of such lists.  A graph feature of shape \<^verbatim>\<open>[B, C, 3, N, K]\<close> is thus
  \<open>g ! b ! n ! k ! c\<close>.
\<close>

type_synonym gfeat = "vec3 list list list"

definition F_normalize_denominator :: "real \<Rightarrow> real" where
  \<comment> \<open>\<^verbatim>\<open>F.normalize\<close> divides by \<^verbatim>\<open>norm.clamp_min(eps)\<close> with the default
      \<^verbatim>\<open>eps = 1e-12\<close>.\<close>
  "F_normalize_denominator n = max n (1 / 1000000000000)"

definition channel_equi_vec_normalize :: "vec3 list \<Rightarrow> vec3 list" where
  \<comment> \<open>Lines 32 to 39, for the channels of one point, over the reals: on vectors whose
      squared norm overflows the floats the code returns NaN, the model a unit vector.\<close>
  "channel_equi_vec_normalize x =
     (let x_dir = map (\<lambda>v. smul (1 / F_normalize_denominator (norm3 v)) v) x;
          x_norm = map norm3 x;
          x_normalized_norm =
            map (\<lambda>r. r / F_normalize_denominator (sqrt (sum_list (map (\<lambda>q. q\<^sup>2) x_norm)))) x_norm
      in map2 smul x_normalized_norm x_dir)"

definition qk_point :: "vec3 list \<Rightarrow> vec3 list list \<Rightarrow> real list list" where
  \<comment> \<open>\<^verbatim>\<open>qk = (Ky * Qx[..., None]).sum(2)\<close>: the sum runs over the vector axis only, so
      \<open>qk ! c ! k\<close> is one number for every channel \<open>c\<close> and neighbour \<open>k\<close>.\<close>
  "qk_point Qx Ky = map (\<lambda>c. map (\<lambda>Ky_k. dot3 (Ky_k ! c) (Qx ! c)) Ky) [0..<length Qx]"

definition expand :: "nat \<Rightarrow> 'a list \<Rightarrow> 'a list" where
  \<comment> \<open>\<^verbatim>\<open>expand\<close> along one axis: an axis of size one is repeated, an axis that has the
      requested size already is left as it is.\<close>
  "expand m xs = (if length xs = 1 \<and> m \<noteq> 1 then replicate m (hd xs) else xs)"

definition attention :: "nat \<Rightarrow> vec3 list \<Rightarrow> vec3 list list \<Rightarrow> error + real list list" where
  \<comment> \<open>Lines 55 to 63: the weights \<^verbatim>\<open>atten[b, :, n, :]\<close>, one row per channel.\<close>
  "attention atten_multi_head_c Qx Ky =
     (if atten_multi_head_c = 0 then Inl ZeroDivisionError
      else
        let qk = qk_point Qx Ky;
            C = length qk;
            N_head = C div atten_multi_head_c
        in if N_head * atten_multi_head_c \<noteq> C then Inl RuntimeError
           else
             let heads = map (\<lambda>h. take atten_multi_head_c (drop (h * atten_multi_head_c) qk))
                           [0..<N_head];
                 scaled = map (map (map (\<lambda>s. s / sqrt (real (3 * C))))) heads;
                 atten = map (map softmax) scaled;
                 atten = map (expand atten_multi_head_c) atten
             in Inr (concat atten))"

definition CrossContext_point ::
  "nat \<Rightarrow> vec3 list \<Rightarrow> vec3 list \<Rightarrow> vec3 list list \<Rightarrow> vec3 list list \<Rightarrow> error + vec3 list" where
  \<comment> \<open>Line 65: \<^verbatim>\<open>x + (atten * Vy).sum(-1)\<close> for one point.\<close>
  "CrossContext_point atten_multi_head_c x Qx Ky Vy =
     (case attention atten_multi_head_c Qx Ky of
        Inl e \<Rightarrow> Inl e
      | Inr atten \<Rightarrow>
          Inr (map (\<lambda>c. vadd (x ! c) (vsum (map2 smul (atten ! c) (map (\<lambda>Vy_k. Vy_k ! c) Vy))))
                 [0..<length x]))"

text \<open>
  The three vector-neuron layers and \<^verbatim>\<open>get_graph_feature\<close> are learned or imported
  code; the forward pass takes them as the functions \<open>vn_mlp_q\<close>, \<open>vn_mlp_k\<close>,
  \<open>vn_mlp_v\<close> and \<open>get_graph_feature\<close> on whole batches.
\<close>

definition CrossContext_forward ::
  "(feat list \<Rightarrow> feat list) \<Rightarrow> (gfeat list \<Rightarrow> gfeat list) \<Rightarrow> (gfeat list \<Rightarrow> gfeat list)
     \<Rightarrow> (feat list \<Rightarrow> nat \<Rightarrow> gfeat list) \<Rightarrow> nat \<Rightarrow> nat
     \<Rightarrow> feat list \<Rightarrow> feat list \<Rightarrow> error + feat list" where
  "CrossContext_forward vn_mlp_q vn_mlp_k vn_mlp_v get_graph_feature atten_multi_head_c k_nn x y =
     (let Qx = map (map channel_equi_vec_normalize) (vn_mlp_q x);
          y = get_graph_feature y k_nn;
          Ky = map (map (map channel_equi_vec_normalize)) (vn_mlp_k y);
          Vy = vn_mlp_v y
      in sequence (map (\<lambda>b. sequence (map (\<lambda>n.
            CrossContext_point atten_multi_head_c (x ! b ! n) (Qx ! b ! n) (Ky ! b ! n) (Vy ! b ! n))
            [0..<length (x ! b)])) [0..<length x]))"

text \<open>
  The weights as the specification words them: one score per head group, the sum of the
  products over the channels of the group and over the vector components, scaled,
  normalised over the neighbours and given to every channel of the group.
\<close>

definition spec_attention :: "nat \<Rightarrow> vec3 list \<Rightarrow> vec3 list list \<Rightarrow> real list list" where
  "spec_attention head_channels Qx Ky =
     (let qk = qk_point Qx Ky;
          C = length qk;
          group = (\<lambda>c. [(c div head_channels) * head_channels ..<
                         (c div head_channels) * head_channels + head_channels]);
          score = (\<lambda>c. map (\<lambda>k. (\<Sum>j\<leftarrow>group c. qk ! j ! k) / sqrt (real (3 * C)))
                          [0..<length Ky])
      in map (\<lambda>c. softmax (score c)) [0..<C])"

section \<open>Loss\<close>

text \<open>
  \<^verbatim>\<open>HEGN_Loss.forward\<close>, lines 214 to 224.  A batch of matrices is a list of
  \<open>mat3\<close>, a batch of translations a list of 3-vectors, and a point cloud batch a list of
  lists of points (the transposition in line 223 only changes the layout from
  \<^verbatim>\<open>[B, 3, N]\<close> to \<^verbatim>\<open>[B, N, 3]\<close>).  \<^verbatim>\<open>t.squeeze()\<close> leaves a
  \<^verbatim>\<open>[B, 3]\<close> tensor as it is (for \<^verbatim>\<open>B = 1\<close> the subtraction broadcasts it back).

  \<^verbatim>\<open>Tensor.mean()\<close> divides the sum by the number of elements; for a tensor without
  elements that is \<open>0 / 0\<close>, a NaN.  The three results of the loss are therefore values
  of \<open>tfloat\<close>.
\<close>

fun tadd :: "tfloat \<Rightarrow> tfloat \<Rightarrow> tfloat" where
  "tadd (Finite a) (Finite b) = Finite (a + b)"
| "tadd NaN _ = NaN"
| "tadd _ NaN = NaN"
| "tadd PosInf NegInf = NaN"
| "tadd NegInf PosInf = NaN"
| "tadd PosInf _ = PosInf"
| "tadd _ PosInf = PosInf"
| "tadd NegInf _ = NegInf"
| "tadd _ NegInf = NegInf"

definition frob_norm :: "mat3 \<Rightarrow> real" where
  \<comment> \<open>\<^verbatim>\<open>torch.norm(M, dim=(1, 2))\<close> for one batch element.\<close>
  "frob_norm M = (case M of (r0, r1, r2) \<Rightarrow> sqrt (dot3 r0 r0 + dot3 r1 r1 + dot3 r2 r2))"

definition mean_list :: "real list \<Rightarrow> tfloat" where
  \<comment> \<open>\<^verbatim>\<open>xs.mean()\<close>\<close>
  "mean_list xs = tdiv (sum_list xs) (real (length xs))"

definition L_reg :: "mat3 list \<Rightarrow> mat3 list \<Rightarrow> vec3 list \<Rightarrow> mat3 list \<Rightarrow> mat3 list \<Rightarrow> vec3 list
     \<Rightarrow> real list" where
  \<comment> \<open>Lines 215 to 221.\<close>
  "L_reg R S t R_gt S_gt t_gt =
     (let S = map diagonal S;
          S_gt = map diagonal S_gt;
          batch_size = length R;
          R_loss = map (\<lambda>b. mat_sub (matmul (mat_T (R_gt ! b)) (R ! b)) eye3) [0..<batch_size]
      in map (\<lambda>b. (frob_norm (R_loss ! b))\<^sup>2 + (norm3 (vsub (S ! b) (S_gt ! b)))\<^sup>2
                     + (norm3 (vsub (t ! b) (t_gt ! b)))\<^sup>2) [0..<batch_size])"

text \<open>
  Modelled from the spec: \<^verbatim>\<open>chamfer_distance\<close> is imported from
  \<^verbatim>\<open>pytorch3d.loss\<close> and is not part of the sources.  Section 4.9 gives its contract:
  it takes two \<^verbatim>\<open>[B, N, 3]\<close> clouds and returns the symmetric nearest-neighbour squared
  distance, averaged over the points and over the batch.  A cloud without points has no
  nearest neighbour and no mean over its points: the distance is a NaN as soon as one
  cloud is empty, and the mean over an empty batch is a NaN as well.
\<close>

definition sqdist :: "vec3 \<Rightarrow> vec3 \<Rightarrow> real" where
  "sqdist p q = dot3 (vsub p q) (vsub p q)"

fun nearest_sqdist :: "vec3 \<Rightarrow> vec3 list \<Rightarrow> real" where
  "nearest_sqdist p [] = 0"
| "nearest_sqdist p [q] = sqdist p q"
| "nearest_sqdist p (q # qs) = min (sqdist p q) (nearest_sqdist p qs)"

definition chamfer_one_sided :: "vec3 list \<Rightarrow> vec3 list \<Rightarrow> real" where
  "chamfer_one_sided xs ys = sum_list (map (\<lambda>p. nearest_sqdist p ys) xs) / real (length xs)"

definition chamfer_distance :: "vec3 list list \<Rightarrow> vec3 list list \<Rightarrow> tfloat" where
  "chamfer_distance x y =
     (if list_ex (\<lambda>cloud. cloud = []) (x @ y) then NaN
      else tadd (mean_list (map2 chamfer_one_sided x y)) (mean_list (map2 chamfer_one_sided y x)))"

definition HEGN_Loss_forward ::
  "vec3 list list \<Rightarrow> vec3 list list \<Rightarrow> mat3 list \<Rightarrow> mat3 list \<Rightarrow> vec3 list
     \<Rightarrow> mat3 list \<Rightarrow> mat3 list \<Rightarrow> vec3 list \<Rightarrow> tfloat \<times> tfloat \<times> tfloat" where
  "HEGN_Loss_forward x_aligned y R S t R_gt S_gt t_gt =
     (let L_reg = L_reg R S t R_gt S_gt t_gt;
          L_chamfer = chamfer_distance x_aligned y
      in (tadd (mean_list L_reg) L_chamfer, mean_list L_reg, L_chamfer))"

text \<open>
  The registration loss of one batch element as the specification words it, written out
  in the entries of the six arguments: the squared Frobenius norm of
  \<^verbatim>\<open>R_gt^T R - I\<close> (entry \<open>(i, j)\<close> of the product is the sum over \<open>k\<close> of
  \<open>g\<^sub>k\<^sub>i * r\<^sub>k\<^sub>j\<close>), plus the squared distance of the diagonals of the two scale matrices,
  plus the squared distance of the translations.
\<close>

fun spec_registration_loss :: "mat3 \<Rightarrow> mat3 \<Rightarrow> vec3 \<Rightarrow> mat3 \<Rightarrow> mat3 \<Rightarrow> vec3 \<Rightarrow> real" where
  "spec_registration_loss
     ((r11, r12, r13), (r21, r22, r23), (r31, r32, r33))
     ((s11, s12, s13), (s21, s22, s23), (s31, s32, s33))
     (t1, t2, t3)
     ((g11, g12, g13), (g21, g22, g23), (g31, g32, g33))
     ((q11, q12, q13), (q21, q22, q23), (q31, q32, q33))
     (u1, u2, u3) =
       (g11 * r11 + g21 * r21 + g31 * r31 - 1)\<^sup>2
     + (g11 * r12 + g21 * r22 + g31 * r32)\<^sup>2
     + (g11 * r13 + g21 * r23 + g31 * r33)\<^sup>2
     + (g12 * r11 + g22 * r21 + g32 * r31)\<^sup>2
     + (g12 * r12 + g22 * r22 + g32 * r32 - 1)\<^sup>2
     + (g12 * r13 + g22 * r23 + g32 * r33)\<^sup>2
     + (g13 * r11 + g23 * r21 + g33 * r31)\<^sup>2
     + (g13 * r12 + g23 * r22 + g33 * r32)\<^sup>2
     + (g13 * r13 + g23 * r23 + g33 * r33 - 1)\<^sup>2
     + ((s11 - q11)\<^sup>2 + (s22 - q22)\<^sup>2 + (s33 - q33)\<^sup>2)
     + ((t1 - u1)\<^sup>2 + (t2 - u2)\<^sup>2 + (t3 - u3)\<^sup>2)"

section \<open>Tensor shapes of the forward pass\<close>

text \<open>
  Whether \<^verbatim>\<open>HEGN.forward\<close> (lines 159 to 208) returns, and the shapes of what it
  returns, depend on the shapes of its tensors only.  This part runs the forward pass on
  shapes: a shape is the list of the sizes of a tensor, and every layer is a function from
  shapes to a shape or an error.  Both point clouds are taken to have the same shape, so
  that the features of \<^verbatim>\<open>x\<close> and of \<^verbatim>\<open>y\<close> have the same shape in every line and
  one shape stands for both.
\<close>

type_synonym shape = "nat list"

definition then_do :: "error + 'a \<Rightarrow> ('a \<Rightarrow> error + 'b) \<Rightarrow> error + 'b" where
  "then_do r f = (case r of Inl e \<Rightarrow> Inl e | Inr v \<Rightarrow> f v)"

definition get :: "'a list \<Rightarrow> nat \<Rightarrow> error + 'a" where
  \<comment> \<open>\<^verbatim>\<open>xs[i]\<close> of a Python sequence, for the literal indices 0 to 3.\<close>
  "get xs i = (if i < length xs then Inr (xs ! i) else Inl IndexError)"

definition get_last :: "'a list \<Rightarrow> error + 'a" where
  \<comment> \<open>\<^verbatim>\<open>xs[-1]\<close>\<close>
  "get_last xs = (if xs = [] then Inl IndexError else Inr (last xs))"

record args =
  vngcnn_in :: "nat list"
  vngcnn_out :: "nat list"
  n_knn :: "nat list"
  topk :: "int list"
  num_blocks :: int

text \<open>
  What \<^verbatim>\<open>HEGN.__init__\<close> (lines 140 to 157) keeps: the block count, the selection
  divisors, the channel counts and neighbour count of the four feature extractors, and
  the channel counts of the hierarchical aggregation.
\<close>

record HEGN =
  self_num_blocks :: int
  self_topk :: "int list"
  feature_extraction1 :: "nat \<times> nat \<times> nat"
  feature_extraction2 :: "nat \<times> nat \<times> nat"
  feature_extraction3 :: "nat \<times> nat \<times> nat"
  feature_extraction4 :: "nat \<times> nat \<times> nat"
  hierarchical_aggregation :: "nat \<times> nat"

definition EquivariantFeatureExtraction_init ::
  "nat list \<Rightarrow> nat list \<Rightarrow> nat list \<Rightarrow> nat \<Rightarrow> error + nat \<times> nat \<times> nat" where
  "EquivariantFeatureExtraction_init ins outs ks i =
     then_do (get ins i) (\<lambda>in_feat.
     then_do (get outs i) (\<lambda>out_feat.
     then_do (get ks i) (\<lambda>k. Inr (in_feat, out_feat, k))))"

definition HEGN_init :: "args \<Rightarrow> error + HEGN" where
  "HEGN_init a =
     then_do (EquivariantFeatureExtraction_init (vngcnn_in a) (vngcnn_out a) (n_knn a) 0) (\<lambda>fe1.
     then_do (EquivariantFeatureExtraction_init (vngcnn_in a) (vngcnn_out a) (n_knn a) 1) (\<lambda>fe2.
     then_do (EquivariantFeatureExtraction_init (vngcnn_in a) (vngcnn_out a) (n_knn a) 2) (\<lambda>fe3.
     then_do (EquivariantFeatureExtraction_init (vngcnn_in a) (vngcnn_out a) (n_knn a) 3) (\<lambda>fe4.
     then_do (get (vngcnn_out a) 0) (\<lambda>_.
     then_do (get_last (vngcnn_out a)) (\<lambda>out_feat.
       Inr \<lparr> self_num_blocks = num_blocks a,
             self_topk = topk a,
             feature_extraction1 = fe1,
             feature_extraction2 = fe2,
             feature_extraction3 = fe3,
             feature_extraction4 = fe4,
             hierarchical_aggregation = (sum_list (vngcnn_out a), out_feat) \<rparr>))))))"

text \<open>
  Modelled from the spec: \<^verbatim>\<open>VNLinearLeakyReLU\<close> of \<^verbatim>\<open>hegn.models.vn_layers\<close> is
  not part of the sources.  Section 4.1: given input of shape \<^verbatim>\<open>[B, C_in, 3, ...]\<close> it
  produces \<^verbatim>\<open>[B, C_out, 3, ...]\<close>; section 7: a channel count that does not match the
  configured one fails with a dimension error.
\<close>

definition VNLinearLeakyReLU_shape :: "nat \<Rightarrow> nat \<Rightarrow> shape \<Rightarrow> error + shape" where
  "VNLinearLeakyReLU_shape in_channels out_channels s =
     (case s of
        B # C # d # rest \<Rightarrow>
          if C = in_channels \<and> d = 3 then Inr (B # out_channels # d # rest) else Inl ShapeError
      | _ \<Rightarrow> Inl ShapeError)"

text \<open>
  Modelled from the spec: \<^verbatim>\<open>get_graph_feature\<close> of \<^verbatim>\<open>hegn.utils.vn_dgcnn_util\<close>
  is not part of the sources.  Section 4.2: from \<^verbatim>\<open>[B, C, 3, N]\<close> it returns
  \<^verbatim>\<open>[B, 2C, 3, N, k]\<close>; section 7: a neighbour count above the number of points is a
  configuration error.
\<close>

definition get_graph_feature_shape :: "shape \<Rightarrow> nat \<Rightarrow> error + shape" where
  "get_graph_feature_shape s k =
     (case s of
        [B, C, d, N] \<Rightarrow> if d = 3 \<and> k \<le> N then Inr [B, 2 * C, d, N, k] else Inl ShapeError
      | _ \<Rightarrow> Inl ShapeError)"

text \<open>
  Modelled from the spec: \<^verbatim>\<open>VNDGCNN\<close> of \<^verbatim>\<open>hegn.models.vn_dgcnn\<close> is not part of
  the sources.  Section 4.3: a stack of graph-feature, vector-linear and pooling stages
  that produces one descriptor per point, with a configurable output channel count.
\<close>

definition VNDGCNN_shape :: "nat \<Rightarrow> nat \<Rightarrow> nat \<Rightarrow> shape \<Rightarrow> error + shape" where
  "VNDGCNN_shape in_feat out_feat k s =
     then_do (get_graph_feature_shape s k) (\<lambda>g.
     then_do (VNLinearLeakyReLU_shape (2 * in_feat) out_feat g) (\<lambda>h.
       Inr (butlast h)))"

text \<open>
  Modelled from the spec: \<^verbatim>\<open>mean_pool\<close> of \<^verbatim>\<open>hegn.models.vn_layers\<close> is not part
  of the sources.  Section 4.1: the arithmetic mean over the point/sample axis, the last
  one; the axis is dropped unless \<^verbatim>\<open>keepdim\<close> is set.
\<close>

definition mean_pool_shape :: "shape \<Rightarrow> shape" where
  "mean_pool_shape s = butlast s"

definition cat_dim1 :: "shape list \<Rightarrow> error + shape" where
  \<comment> \<open>\<^verbatim>\<open>torch.cat(tensors, dim=1)\<close>: the tensors have the same number of axes and the
      same sizes on every axis but the second.\<close>
  "cat_dim1 ss =
     (case ss of
        [] \<Rightarrow> Inl RuntimeError
      | s # rest \<Rightarrow>
          if length s < 2 then Inl IndexError
          else if list_all (\<lambda>t. length t = length s \<and> t[1 := 0] = s[1 := 0]) rest
          then Inr (s[1 := sum_list (map (\<lambda>t. t ! 1) ss)])
          else Inl RuntimeError)"

definition CrossContext_shape :: "nat \<Rightarrow> nat \<Rightarrow> nat \<Rightarrow> shape \<Rightarrow> error + shape" where
  \<comment> \<open>Lines 41 to 65 on shapes, \<^verbatim>\<open>x\<close> and \<^verbatim>\<open>y\<close> of the same shape \<open>s\<close>.\<close>
  "CrossContext_shape feature_dim atten_multi_head_c k_nn s =
     then_do (VNLinearLeakyReLU_shape feature_dim feature_dim s) (\<lambda>Qx.
     then_do (get_graph_feature_shape s k_nn) (\<lambda>y.
     then_do (VNLinearLeakyReLU_shape (2 * feature_dim) feature_dim y) (\<lambda>Ky.
       case Ky of
         [B, C, d, N, K] \<Rightarrow>
           if atten_multi_head_c = 0 then Inl ZeroDivisionError
           else if B * (C div atten_multi_head_c) * atten_multi_head_c * N * K \<noteq> B * C * N * K
           then Inl RuntimeError
           else Inr s
       | _ \<Rightarrow> Inl ShapeError)))"

definition GlobalContext_shape :: "nat \<Rightarrow> nat \<Rightarrow> shape \<Rightarrow> error + shape" where
  \<comment> \<open>Lines 74 to 76.\<close>
  "GlobalContext_shape mlp_in mlp_out fx =
     then_do (cat_dim1 [fx, fx]) (VNLinearLeakyReLU_shape mlp_in mlp_out)"

definition EquivariantFeatureExtraction_shape :: "nat \<times> nat \<times> nat \<Rightarrow> shape \<Rightarrow> error + shape" where
  \<comment> \<open>Lines 121 to 137.\<close>
  "EquivariantFeatureExtraction_shape fe x =
     (case fe of (in_feat, out_feat, k) \<Rightarrow>
        then_do (VNDGCNN_shape in_feat out_feat k x) (\<lambda>fx.
        then_do (CrossContext_shape out_feat 16 k fx) (\<lambda>fx.
          GlobalContext_shape (out_feat * 2) out_feat fx)))"

definition InvariantMapping_shape :: "shape \<Rightarrow> int \<Rightarrow> error + shape" where
  \<comment> \<open>Lines 82 to 99 on shapes; the names \<open>b\<close>, \<open>c\<close>, \<open>n\<close>, \<open>s\<close> are those of line 93.
      A tensor of fewer than three axes has no axis 1 for the mean or for the norm
      (\<^verbatim>\<open>IndexError\<close>); one of three or of more than four axes fails in the
      \<^verbatim>\<open>repeat\<close>, the division or the \<^verbatim>\<open>einsum\<close> (\<^verbatim>\<open>RuntimeError\<close>).\<close>
  "InvariantMapping_shape fx tk =
     (case fx of
        [b, c, n, s] \<Rightarrow>
          if tk = 0 then Inl ZeroDivisionError
          else
            let k = int s div tk
            in if k < 0 \<or> int s < k then Inl RuntimeError
               else if n < 3 then Inl RuntimeError
               else Inr [b, c, 3, nat k]
      | _ \<Rightarrow> if length fx < 3 then Inl IndexError else Inl RuntimeError)"

definition HierarchicalAggregation_shape :: "nat \<times> nat \<Rightarrow> shape list \<Rightarrow> error + shape" where
  \<comment> \<open>Lines 106 and 107.\<close>
  "HierarchicalAggregation_shape ha fx =
     (case ha of (in_feat, out_feat) \<Rightarrow>
        then_do (cat_dim1 fx) (VNLinearLeakyReLU_shape in_feat out_feat))"

definition broadcast_dim :: "nat \<Rightarrow> nat \<Rightarrow> error + nat" where
  "broadcast_dim m n =
     (if m = n then Inr m else if m = 1 then Inr n else if n = 1 then Inr m
      else Inl RuntimeError)"

definition Alignment_shape :: "shape \<Rightarrow> shape \<Rightarrow> error + shape \<times> shape" where
  \<comment> \<open>Lines 113 to 118 on shapes.\<close>
  "Alignment_shape fx fy =
     (case (fx, fy) of
        ([b, c, d], [b', c', e]) \<Rightarrow>
          then_do (broadcast_dim b b') (\<lambda>B.
          then_do (broadcast_dim c c') (\<lambda>_.
            if d \<noteq> e then Inl RuntimeError
            else Inr ([B, d, e], [B, d])))
      | _ \<Rightarrow> Inl RuntimeError)"

definition unsqueeze1 :: "shape \<Rightarrow> error + shape" where
  \<comment> \<open>\<^verbatim>\<open>x.unsqueeze(1)\<close>\<close>
  "unsqueeze1 s = (if s = [] then Inl IndexError else Inr (hd s # 1 # tl s))"

fun pool_loop :: "nat list \<Rightarrow> shape list \<Rightarrow> error + shape list" where
  "pool_loop [] fx_block = Inr fx_block"
| "pool_loop (i # is) fx_block =
     (if i < length fx_block
      then pool_loop is (fx_block[i := mean_pool_shape (fx_block ! i)])
      else Inl IndexError)"

definition block_shape :: "nat \<times> nat \<times> nat \<Rightarrow> int list \<Rightarrow> nat \<Rightarrow> shape \<Rightarrow> error + shape" where
  \<comment> \<open>One block of the forward pass: feature extraction, then the invariant mapping
      with \<^verbatim>\<open>self.topk[i]\<close>.\<close>
  "block_shape fe tks i fx =
     then_do (EquivariantFeatureExtraction_shape fe fx) (\<lambda>fx.
     then_do (get tks i) (\<lambda>tk. InvariantMapping_shape fx tk))"

definition HEGN_forward_shape :: "HEGN \<Rightarrow> shape \<Rightarrow> error + shape \<times> shape" where
  "HEGN_forward_shape self x =
     then_do (unsqueeze1 x) (\<lambda>fx.
     then_do (block_shape (feature_extraction1 self) (self_topk self) 0 fx) (\<lambda>fx1.
     then_do (block_shape (feature_extraction2 self) (self_topk self) 1 fx1) (\<lambda>fx2.
     then_do (block_shape (feature_extraction3 self) (self_topk self) 2 fx2) (\<lambda>fx3.
     then_do (block_shape (feature_extraction4 self) (self_topk self) 3 fx3) (\<lambda>fx4.
     then_do (pool_loop [0..<nat (self_num_blocks self)] [fx1, fx2, fx3, fx4]) (\<lambda>fx_block.
     then_do (HierarchicalAggregation_shape (hierarchical_aggregation self) fx_block) (\<lambda>f.
       Alignment_shape f f)))))))"

section \<open>Concrete inputs\<close>

definition identity_descriptor :: "vec3 list" where
  "identity_descriptor = [(1, 0, 0), (0, 1, 0), (0, 0, 1)]"

definition mirrored_descriptor :: "vec3 list" where
  "mirrored_descriptor = [(1, 0, 0), (0, 1, 0), (0, 0, -1)]"

definition permuted_descriptor :: "vec3 list" where
  "permuted_descriptor = [(0, 2, 0), (0, 0, 1), (2, 0, 0)]"

definition three_points :: feat where
  \<comment> \<open>One batch element of shape \<^verbatim>\<open>[C = 1, 3, N = 3]\<close>: three points, one channel each.\<close>
  "three_points = [[(1, 0, 0)], [(0, 1, 0)], [(0, 0, 1)]]"

definition quarter_turn :: mat3 where
  \<comment> \<open>The rotation by a right angle about the third axis.\<close>
  "quarter_turn = ((0, -1, 0), (1, 0, 0), (0, 0, 1))"

definition zero_descriptor :: "vec3 list" where
  "zero_descriptor = [(0, 0, 0)]"

definition query_two_channels :: "vec3 list" where
  \<comment> \<open>A normalised query of one point with two channels.\<close>
  "query_two_channels = [(3 / 5, 0, 0), (4 / 5, 0, 0)]"

definition keys_two_neighbours :: "vec3 list list" where
  \<comment> \<open>The normalised keys of the two neighbours of that point, two channels each.\<close>
  "keys_two_neighbours = [[(3 / 5, 0, 0), (4 / 5, 0, 0)], [(4 / 5, 0, 0), (3 / 5, 0, 0)]]"

definition args_example :: args where
  \<comment> \<open>A configuration with four blocks.\<close>
  "args_example = \<lparr> vngcnn_in = [1, 16, 32, 32], vngcnn_out = [16, 32, 32, 16],
      n_knn = [4, 4, 4, 4], topk = [2, 2, 2, 2], num_blocks = 4 \<rparr>"

definition HEGN_example :: HEGN where
  \<comment> \<open>The model that \<^verbatim>\<open>HEGN.__init__\<close> builds from it.\<close>
  "HEGN_example = \<lparr> self_num_blocks = 4, self_topk = [2, 2, 2, 2],
      feature_extraction1 = (1, 16, 4), feature_extraction2 = (16, 32, 4),
      feature_extraction3 = (32, 32, 4), feature_extraction4 = (32, 16, 4),
      hierarchical_aggregation = (96, 16) \<rparr>"

definition args_small :: args where
  \<comment> \<open>A configuration for clouds of three points.\<close>
  "args_small = \<lparr> vngcnn_in = [1, 16, 16, 16], vngcnn_out = [16, 16, 16, 16],
      n_knn = [2, 2, 2, 2], topk = [1, 1, 1, 1], num_blocks = 4 \<rparr>"

definition HEGN_small :: HEGN where
  \<comment> \<open>The model built from it.\<close>
  "HEGN_small = \<lparr> self_num_blocks = 4, self_topk = [1, 1, 1, 1],
      feature_extraction1 = (1, 16, 2), feature_extraction2 = (16, 16, 2),
      feature_extraction3 = (16, 16, 2), feature_extraction4 = (16, 16, 2),
      hierarchical_aggregation = (64, 16) \<rparr>"

definition two_clouds_moved :: "vec3 list list" where
  \<comment> \<open>A batch of two clouds of one point each.\<close>
  "two_clouds_moved = [[(1, 0, 0)], [(0, 0, 0)]]"

definition two_clouds_origin :: "vec3 list list" where
  \<comment> \<open>The same batch with both points at the origin.\<close>
  "two_clouds_origin = [[(0, 0, 0)], [(0, 0, 0)]]"

definition scale_with_shear :: mat3 where
  \<comment> \<open>A scale matrix with entries off the diagonal.\<close>
  "scale_with_shear = ((2, 5, 0), (0, 1, 0), (7, 0, 1))"

definition cyclic_shift :: mat3 where
  \<comment> \<open>The rotation that permutes the three axes cyclically.\<close>
  "cyclic_shift = ((0, 1, 0), (0, 0, 1), (1, 0, 0))"

definition stretched_descriptor :: "vec3 list" where
  \<comment> \<open>The rows of \<^verbatim>\<open>quarter_turn diag(3, 2, 1) cyclic_shift\<close>.\<close>
  "stretched_descriptor = [(0, 0, -2), (0, 3, 0), (1, 0, 0)]"

definition svd_example :: "mat3 \<Rightarrow> mat3 \<times> vec3 \<times> mat3" where
  \<comment> \<open>What a library may return for that matrix: its factors \<^verbatim>\<open>(U, S, Vh)\<close>.\<close>
  "svd_example H = (quarter_turn, (3, 2, 1), cyclic_shift)"

definition tiny_feature :: "vec3 list" where
  \<comment> \<open>One channel of norm \<open>1e-13\<close>, below the bound \<open>1e-12\<close> of \<^verbatim>\<open>F.normalize\<close>.\<close>
  "tiny_feature = [(1 / 10000000000000, 0, 0)]"

section \<open>Lemmas on 3-by-3 matrices\<close>

lemma matmul_assoc: "matmul (matmul A B) C = matmul A (matmul B C)"
  by (cases A rule: mat_T.cases; cases B rule: mat_T.cases; cases C rule: mat_T.cases)
     (simp add: algebra_simps)

lemma mat_T_matmul: "mat_T (matmul A B) = matmul (mat_T B) (mat_T A)"
  by (cases A rule: mat_T.cases; cases B rule: mat_T.cases) (simp add: algebra_simps)

lemma mat_T_mat_T: "mat_T (mat_T A) = A"
  by (cases A rule: mat_T.cases) simp

lemma matmul_eye3_left: "matmul eye3 A = A"
  by (cases A rule: mat_T.cases) (simp add: eye3_def)

lemma matmul_eye3_right: "matmul A eye3 = A"
  by (cases A rule: mat_T.cases) (simp add: eye3_def)

lemma det3_matmul: "det3 (matmul A B) = det3 A * det3 B"
  by (cases A rule: mat_T.cases; cases B rule: mat_T.cases) (simp add: algebra_simps)

lemma det3_mat_T: "det3 (mat_T A) = det3 A"
  by (cases A rule: mat_T.cases) (simp add: algebra_simps)

lemma det3_eye3: "det3 eye3 = 1"
  by (simp add: eye3_def)

lemma det3_diag3: "det3 (diag3 s) = vx s * vy s * vz s"
  by (cases s) simp

lemma orthogonal3_matmul:
  assumes "orthogonal3 A" "orthogonal3 B"
  shows "orthogonal3 (matmul A B)"
proof -
  have "matmul (mat_T (matmul A B)) (matmul A B)
        = matmul (mat_T B) (matmul (matmul (mat_T A) A) B)"
    by (simp add: mat_T_matmul matmul_assoc)
  also have "\<dots> = eye3"
    using assms by (simp add: orthogonal3_def matmul_eye3_left)
  finally have left: "matmul (mat_T (matmul A B)) (matmul A B) = eye3" .
  have "matmul (matmul A B) (mat_T (matmul A B))
        = matmul A (matmul (matmul B (mat_T B)) (mat_T A))"
    by (simp add: mat_T_matmul matmul_assoc)
  also have "\<dots> = eye3"
    using assms by (simp add: orthogonal3_def matmul_eye3_left)
  finally have right: "matmul (matmul A B) (mat_T (matmul A B)) = eye3" .
  show ?thesis using left right by (simp add: orthogonal3_def)
qed

lemma orthogonal3_det:
  assumes "orthogonal3 A"
  shows "det3 A = 1 \<or> det3 A = -1"
proof -
  have "det3 (matmul (mat_T A) A) = 1"
    using assms by (simp add: orthogonal3_def det3_eye3)
  then have "det3 A * det3 A = 1"
    by (simp add: det3_matmul det3_mat_T)
  then show ?thesis by (metis square_eq_1_iff)
qed

section \<open>The alignment solver\<close>

lemma Alignment_forward_nth:
  assumes "b < length fx" "b < length fy"
  shows "fst (Alignment_forward svd fx fy) ! b = fst (Alignment_sample svd (fx ! b) (fy ! b))"
    and "snd (Alignment_forward svd fx fy) ! b = snd (Alignment_sample svd (fx ! b) (fy ! b))"
  using assms by (simp_all add: Alignment_forward_def Let_def)

lemma is_svd_product:
  assumes "is_svd H (U, s, Vh)"
  shows "orthogonal3 (matmul U Vh)"
    and "det3 H = det3 (matmul U Vh) * (vx s * vy s * vz s)"
    and "0 \<le> vx s * vy s * vz s"
proof -
  from assms have o: "orthogonal3 U" "orthogonal3 Vh"
    and s: "vx s \<ge> vy s" "vy s \<ge> vz s" "vz s \<ge> 0"
    and H: "H = matmul (matmul U (diag3 s)) Vh"
    by (simp_all add: is_svd_def)
  show "orthogonal3 (matmul U Vh)" using o by (rule orthogonal3_matmul)
  show "det3 H = det3 (matmul U Vh) * (vx s * vy s * vz s)"
    by (simp add: H det3_matmul det3_diag3)
  show "0 \<le> vx s * vy s * vz s" using s by simp
qed

text \<open>
  Claim C1, as the code has it.  For every batch element, \<^verbatim>\<open>H = fx^T fy\<close> (entry
  \<open>(d, e)\<close> is the sum over the channels of component \<open>d\<close> of \<^verbatim>\<open>fx\<close> times
  component \<open>e\<close> of \<^verbatim>\<open>fy\<close>), and when the library returns the singular value
  decomposition \<^verbatim>\<open>(U, S, Vh)\<close> of it, the returned matrix is \<^verbatim>\<open>R = U Vh\<close>.  It is
  orthogonal and its determinant is \<open>1\<close> or \<open>-1\<close>: it is \<open>1\<close> when \<open>det H\<close> is
  positive and \<open>-1\<close> when \<open>det H\<close> is negative, since no reflection is corrected.
\<close>

theorem Alignment_rotation_orthogonal:
  assumes "length fx = length fy" "b < length fx" "length (fx ! b) = length (fy ! b)"
    and "svd (einsum_cd_ce (fx ! b) (fy ! b)) = (U, s, Vh)"
    and "is_svd (einsum_cd_ce (fx ! b) (fy ! b)) (U, s, Vh)"
  shows "einsum_cd_ce (fx ! b) (fy ! b) =
       ((sum_list (map2 (\<lambda>u v. vx u * vx v) (fx ! b) (fy ! b)),
         sum_list (map2 (\<lambda>u v. vx u * vy v) (fx ! b) (fy ! b)),
         sum_list (map2 (\<lambda>u v. vx u * vz v) (fx ! b) (fy ! b))),
        (sum_list (map2 (\<lambda>u v. vy u * vx v) (fx ! b) (fy ! b)),
         sum_list (map2 (\<lambda>u v. vy u * vy v) (fx ! b) (fy ! b)),
         sum_list (map2 (\<lambda>u v. vy u * vz v) (fx ! b) (fy ! b))),
        (sum_list (map2 (\<lambda>u v. vz u * vx v) (fx ! b) (fy ! b)),
         sum_list (map2 (\<lambda>u v. vz u * vy v) (fx ! b) (fy ! b)),
         sum_list (map2 (\<lambda>u v. vz u * vz v) (fx ! b) (fy ! b))))
    \<and> fst (Alignment_forward svd fx fy) ! b = matmul U Vh
    \<and> orthogonal3 (fst (Alignment_forward svd fx fy) ! b)
    \<and> (det3 (fst (Alignment_forward svd fx fy) ! b) = 1
        \<or> det3 (fst (Alignment_forward svd fx fy) ! b) = -1)
    \<and> (0 < det3 (einsum_cd_ce (fx ! b) (fy ! b))
        \<longrightarrow> det3 (fst (Alignment_forward svd fx fy) ! b) = 1)
    \<and> (det3 (einsum_cd_ce (fx ! b) (fy ! b)) < 0
        \<longrightarrow> det3 (fst (Alignment_forward svd fx fy) ! b) = -1)"
proof -
  define H where "H = einsum_cd_ce (fx ! b) (fy ! b)"
  have usv: "svd H = (U, s, Vh)" using assms(4) by (simp add: H_def)
  have R: "fst (Alignment_forward svd fx fy) ! b = matmul U Vh"
    using assms(1,2) usv
    by (simp add: Alignment_forward_nth Alignment_sample_def H_def Let_def)
  have sv: "is_svd H (U, s, Vh)"
    using assms(5) by (simp add: H_def)
  note f = is_svd_product [OF sv]
  have d: "det3 (matmul U Vh) = 1 \<or> det3 (matmul U Vh) = -1"
    using f(1) by (rule orthogonal3_det)
  have p: "0 < det3 H \<longrightarrow> det3 (matmul U Vh) = 1"
  proof
    assume "0 < det3 H"
    then have "0 < det3 (matmul U Vh) * (vx s * vy s * vz s)"
      using f(2) by simp
    then have "det3 (matmul U Vh) \<noteq> -1"
      using f(3) by (metis mult_minus1 neg_0_less_iff_less not_less)
    with d show "det3 (matmul U Vh) = 1" by blast
  qed
  have n: "det3 H < 0 \<longrightarrow> det3 (matmul U Vh) = -1"
  proof
    assume "det3 H < 0"
    then have "det3 (matmul U Vh) * (vx s * vy s * vz s) < 0"
      using f(2) by simp
    then have "det3 (matmul U Vh) \<noteq> 1"
      using f(3) by auto
    with d show "det3 (matmul U Vh) = -1" by blast
  qed
  have e: "einsum_cd_ce (fx ! b) (fy ! b) =
       ((sum_list (map2 (\<lambda>u v. vx u * vx v) (fx ! b) (fy ! b)),
         sum_list (map2 (\<lambda>u v. vx u * vy v) (fx ! b) (fy ! b)),
         sum_list (map2 (\<lambda>u v. vx u * vz v) (fx ! b) (fy ! b))),
        (sum_list (map2 (\<lambda>u v. vy u * vx v) (fx ! b) (fy ! b)),
         sum_list (map2 (\<lambda>u v. vy u * vy v) (fx ! b) (fy ! b)),
         sum_list (map2 (\<lambda>u v. vy u * vz v) (fx ! b) (fy ! b))),
        (sum_list (map2 (\<lambda>u v. vz u * vx v) (fx ! b) (fy ! b)),
         sum_list (map2 (\<lambda>u v. vz u * vy v) (fx ! b) (fy ! b)),
         sum_list (map2 (\<lambda>u v. vz u * vz v) (fx ! b) (fy ! b))))"
    by (simp add: einsum_cd_ce_def Let_def)
  show ?thesis
    unfolding R using e f(1) d p n unfolding H_def by blast
qed

theorem Alignment_rotation_orthogonal_witness:
  "einsum_cd_ce identity_descriptor stretched_descriptor = ((0, 0, -2), (0, 3, 0), (1, 0, 0))
   \<and> fst (Alignment_forward svd_example [identity_descriptor] [stretched_descriptor]) ! 0
       = ((0, 0, -1), (0, 1, 0), (1, 0, 0))
   \<and> orthogonal3 (fst (Alignment_forward svd_example
       [identity_descriptor] [stretched_descriptor]) ! 0)
   \<and> det3 (fst (Alignment_forward svd_example
       [identity_descriptor] [stretched_descriptor]) ! 0) = 1"
proof -
  have H: "einsum_cd_ce identity_descriptor stretched_descriptor
      = ((0, 0, -2), (0, 3, 0), (1, 0, 0))"
    by (simp add: einsum_cd_ce_def identity_descriptor_def stretched_descriptor_def)
  have sv: "is_svd (einsum_cd_ce ([identity_descriptor] ! 0) ([stretched_descriptor] ! 0))
      (quarter_turn, (3, 2, 1), cyclic_shift)"
    by (simp add: H is_svd_def orthogonal3_def quarter_turn_def cyclic_shift_def eye3_def)
  have m: "matmul quarter_turn cyclic_shift = ((0, 0, -1), (0, 1, 0), (1, 0, 0))"
    by (simp add: quarter_turn_def cyclic_shift_def)
  have d: "0 < det3 (einsum_cd_ce ([identity_descriptor] ! 0) ([stretched_descriptor] ! 0))"
    by (simp add: H)
  have h1: "length [identity_descriptor] = length [stretched_descriptor]" by simp
  have h2: "0 < length [identity_descriptor]" by simp
  have h3: "length ([identity_descriptor] ! 0) = length ([stretched_descriptor] ! 0)"
    by (simp add: identity_descriptor_def stretched_descriptor_def)
  have h4: "svd_example (einsum_cd_ce ([identity_descriptor] ! 0) ([stretched_descriptor] ! 0))
      = (quarter_turn, (3, 2, 1), cyclic_shift)"
    by (simp add: svd_example_def)
  let ?R = "fst (Alignment_forward svd_example [identity_descriptor] [stretched_descriptor]) ! 0"
  note T = Alignment_rotation_orthogonal
      [where fx = "[identity_descriptor]" and fy = "[stretched_descriptor]" and b = 0
         and svd = svd_example, OF h1 h2 h3 h4 sv]
  have r: "?R = matmul quarter_turn cyclic_shift" using T by blast
  have o: "orthogonal3 ?R" using T by blast
  have p: "det3 ?R = 1" using T d by blast
  show ?thesis using H r o p by (simp only: m simp_thms)
qed

text \<open>
  Claim C1 as stated fails.  With \<^verbatim>\<open>fx\<close> the three unit vectors and \<^verbatim>\<open>fy\<close> the same
  with the last one negated, \<^verbatim>\<open>H = diag(1, 1, -1)\<close>; \<^verbatim>\<open>(I, (1, 1, 1), H)\<close> is a
  singular value decomposition of it and the returned matrix has determinant \<open>-1\<close>.
\<close>

theorem Alignment_rotation_reflection_counterexample:
  "is_svd (einsum_cd_ce identity_descriptor mirrored_descriptor)
     (svd_of_orthogonal (einsum_cd_ce identity_descriptor mirrored_descriptor))
   \<and> det3 (fst (Alignment_forward svd_of_orthogonal
        [identity_descriptor] [mirrored_descriptor]) ! 0) = -1
   \<and> det3 (fst (Alignment_forward svd_of_orthogonal
        [identity_descriptor] [mirrored_descriptor]) ! 0) \<noteq> 1"
proof -
  have H: "einsum_cd_ce identity_descriptor mirrored_descriptor = ((1, 0, 0), (0, 1, 0), (0, 0, -1))"
    by (simp add: einsum_cd_ce_def identity_descriptor_def mirrored_descriptor_def)
  show ?thesis
    by (simp add: H Alignment_forward_def Alignment_sample_def svd_of_orthogonal_def
        is_svd_def orthogonal3_def eye3_def)
qed

text \<open>
  Claim C2, as the code has it.  The scale of a batch element has three entries, one per
  coordinate axis \<open>d\<close>: the 2-norm over the channel axis of component \<open>d\<close> of \<^verbatim>\<open>fy\<close>,
  divided by the same norm of \<^verbatim>\<open>fx\<close>.
\<close>

theorem Alignment_scale_per_axis:
  assumes "length fx = length fy" "b < length fx" "length (fx ! b) = length (fy ! b)"
  shows "snd (Alignment_forward svd fx fy) ! b =
     [tdiv (sqrt (\<Sum>v\<leftarrow>fy ! b. (vx v)\<^sup>2)) (sqrt (\<Sum>v\<leftarrow>fx ! b. (vx v)\<^sup>2)),
      tdiv (sqrt (\<Sum>v\<leftarrow>fy ! b. (vy v)\<^sup>2)) (sqrt (\<Sum>v\<leftarrow>fx ! b. (vy v)\<^sup>2)),
      tdiv (sqrt (\<Sum>v\<leftarrow>fy ! b. (vz v)\<^sup>2)) (sqrt (\<Sum>v\<leftarrow>fx ! b. (vz v)\<^sup>2))]"
  using assms
  by (simp add: Alignment_forward_nth Alignment_sample_def norm_dim1_def Let_def
      split: prod.splits)

theorem Alignment_scale_per_axis_witness:
  "snd (Alignment_forward svd_of_orthogonal [identity_descriptor] [permuted_descriptor]) ! 0
   = [Finite 2, Finite 2, Finite 1]"
  using Alignment_scale_per_axis
    [of "[identity_descriptor]" "[permuted_descriptor]" 0 svd_of_orthogonal]
  by (simp add: identity_descriptor_def permuted_descriptor_def tdiv_def)

text \<open>
  Claim C2 as stated fails.  For \<^verbatim>\<open>fx\<close> the three unit vectors and \<^verbatim>\<open>fy\<close> with rows
  \<open>(0, 2, 0)\<close>, \<open>(0, 0, 1)\<close>, \<open>(2, 0, 0)\<close> the ratios of the row norms are \<open>2, 1, 2\<close>, and the
  code returns \<open>2, 2, 1\<close>.
\<close>

theorem Alignment_scale_per_row_counterexample:
  "spec_scale_per_channel identity_descriptor permuted_descriptor = [Finite 2, Finite 1, Finite 2]
   \<and> snd (Alignment_forward svd_of_orthogonal [identity_descriptor] [permuted_descriptor]) ! 0
       \<noteq> spec_scale_per_channel identity_descriptor permuted_descriptor"
  by (simp add: Alignment_forward_def Alignment_sample_def svd_of_orthogonal_def norm_dim1_def
      spec_scale_per_channel_def norm3_def identity_descriptor_def permuted_descriptor_def
      tdiv_def Let_def)

section \<open>The invariant mapping\<close>

lemma dot3_matvec:
  "dot3 (matvec A v) (matvec A w) = dot3 v (matvec (matmul (mat_T A) A) w)"
  by (cases A rule: mat_T.cases; cases v; cases w) (simp add: algebra_simps)

lemma matvec_eye3: "matvec eye3 v = v"
  by (cases v) (simp add: eye3_def)

lemma dot3_orthogonal:
  assumes "orthogonal3 R"
  shows "dot3 (matvec R v) (matvec R w) = dot3 v w"
  using assms by (simp add: dot3_matvec orthogonal3_def matvec_eye3)

lemma norm3_orthogonal:
  assumes "orthogonal3 R"
  shows "norm3 (matvec R v) = norm3 v"
  using assms by (simp add: norm3_def dot3_orthogonal)

lemma matvec_vadd: "matvec R (vadd a b) = vadd (matvec R a) (matvec R b)"
  by (cases R rule: mat_T.cases; cases a; cases b) (simp add: algebra_simps)

lemma matvec_vzero: "matvec R vzero = vzero"
  by (cases R rule: mat_T.cases) (simp add: vzero_def)

lemma matvec_smul: "matvec R (smul k v) = smul k (matvec R v)"
  by (cases R rule: mat_T.cases; cases v) (simp add: algebra_simps)

lemma matvec_vsum: "vsum (map (matvec R) p) = matvec R (vsum p)"
  by (induction p) (simp_all add: vsum_def matvec_vzero matvec_vadd)

lemma mean_dim1_matvec: "mean_dim1 (map (matvec R) p) = matvec R (mean_dim1 p)"
  by (simp add: mean_dim1_def matvec_vsum matvec_smul)

lemma par_smul: "par m = smul (1 / par_denominator m) m"
  by (cases m) (simp add: par_def)

lemma par_matvec:
  assumes "orthogonal3 R"
  shows "par (matvec R m) = matvec R (par m)"
  using assms by (simp add: par_smul par_denominator_def norm3_orthogonal matvec_smul)

lemma phi_matvec:
  assumes "orthogonal3 R"
  shows "phi (map (matvec R) p) = phi p"
  using assms by (simp add: phi_def mean_dim1_matvec par_matvec dot3_orthogonal o_def)

text \<open>
  Claim C6.  For two feature tensors of the same shape with at least one channel, turning
  every channel vector of both by the same orthogonal matrix (a rotation in particular)
  leaves the scores \<^verbatim>\<open>Sc\<close> of line 89 as they are.  The reals stand for the floats,
  so the equality is exact.
\<close>

theorem Sc_rotation_invariant:
  assumes "orthogonal3 R" and "length fx = length fy"
    and "\<forall>n<length fx. fx ! n \<noteq> [] \<and> length (fx ! n) = length (fy ! n)"
  shows "Sc (rotate_feat R fx) (rotate_feat R fy) = Sc fx fy"
proof -
  have "map2 (\<lambda>p q. sum_list (map2 (*) (phi p) (phi q))) (rotate_feat R fx) (rotate_feat R fy)
      = map2 (\<lambda>p q. sum_list (map2 (*) (phi p) (phi q))) fx fy"
    using assms(1) by (simp add: rotate_feat_def zip_map_map phi_matvec split_def)
  then show ?thesis by (simp add: Sc_def)
qed

lemma dot3_self_nonneg: "0 \<le> dot3 v v"
  by (cases v) simp

lemma norm3_nonneg: "0 \<le> norm3 v"
  by (simp add: norm3_def dot3_self_nonneg)









theorem Sc_rotation_invariant_witness:
  "Sc (rotate_feat quarter_turn three_points) (rotate_feat quarter_turn three_points)
     = Sc three_points three_points"
proof -
  have o: "orthogonal3 quarter_turn"
    by (simp add: orthogonal3_def quarter_turn_def eye3_def)
  have c: "\<forall>n<length three_points.
      three_points ! n \<noteq> [] \<and> length (three_points ! n) = length (three_points ! n)"
    by (simp add: three_points_def nth_Cons split: nat.splits)
  show ?thesis using o refl c by (rule Sc_rotation_invariant)
qed

lemma channel_equi_vec_normalize_eq:
  "channel_equi_vec_normalize x =
     map (\<lambda>v. smul (norm3 v / max (sqrt (\<Sum>u\<leftarrow>x. (norm3 u)\<^sup>2)) (1 / 1000000000000))
                (smul (1 / max (norm3 v) (1 / 1000000000000)) v)) x"
  by (simp add: channel_equi_vec_normalize_def F_normalize_denominator_def Let_def
      zip_map_map zip_same_conv_map o_def)

text \<open>
  Claim C9, as the code has it, over the reals.  The normalisations guard their
  denominators against zero.  The invariant mapping (lines 85 and 86) divides the mean
  direction by its norm plus \<open>1e-6\<close>, a positive number, so the three quotients are
  finite.  \<^verbatim>\<open>channel_equi_vec_normalize\<close> divides every channel vector by its norm
  bounded from below by \<open>1e-12\<close>, and every norm by the norm across the channels
  bounded from below by \<open>1e-12\<close> (the clamp of \<^verbatim>\<open>F.normalize\<close>, not an added
  \<open>1e-6\<close>); both bounds are positive, so no quotient by them is a division by zero.
\<close>

theorem guarded_denominators:
  "par m = (vx m / (norm3 m + 1 / 1000000), vy m / (norm3 m + 1 / 1000000),
            vz m / (norm3 m + 1 / 1000000))
   \<and> 0 < norm3 m + 1 / 1000000
   \<and> tdiv (vx m) (norm3 m + 1 / 1000000) = Finite (vx (par m))
   \<and> tdiv (vy m) (norm3 m + 1 / 1000000) = Finite (vy (par m))
   \<and> tdiv (vz m) (norm3 m + 1 / 1000000) = Finite (vz (par m))
   \<and> channel_equi_vec_normalize x =
       map (\<lambda>v. smul (norm3 v / max (sqrt (\<Sum>u\<leftarrow>x. (norm3 u)\<^sup>2)) (1 / 1000000000000))
                  (smul (1 / max (norm3 v) (1 / 1000000000000)) v)) x
   \<and> 0 < max (norm3 v) (1 / 1000000000000)
   \<and> 0 < max (sqrt (\<Sum>u\<leftarrow>x. (norm3 u)\<^sup>2)) (1 / 1000000000000)
   \<and> tdiv a (max (norm3 v) (1 / 1000000000000)) = Finite (a / max (norm3 v) (1 / 1000000000000))
   \<and> tdiv a (max (sqrt (\<Sum>u\<leftarrow>x. (norm3 u)\<^sup>2)) (1 / 1000000000000))
       = Finite (a / max (sqrt (\<Sum>u\<leftarrow>x. (norm3 u)\<^sup>2)) (1 / 1000000000000))"
proof -
  have p: "0 < norm3 m + 1 / 1000000"
    using norm3_nonneg [of m] by simp
  have q: "0 < max r (1 / 1000000000000)" for r :: real
    by (simp add: max_def)
  have t: "tdiv a (max r (1 / 1000000000000)) = Finite (a / max r (1 / 1000000000000))"
    for a r :: real
    using q [of r] by (simp add: tdiv_def)
  have e: "par m = (vx m / (norm3 m + 1 / 1000000), vy m / (norm3 m + 1 / 1000000),
            vz m / (norm3 m + 1 / 1000000))"
    by (simp add: par_def par_denominator_def)
  show ?thesis
    using p q t by (simp add: channel_equi_vec_normalize_eq [symmetric] e tdiv_def)
qed

lemma norm3_first_axis: "norm3 (a, 0, 0) = \<bar>a\<bar>"
  by (simp add: norm3_def)

text \<open>
  Claim C9 as stated fails.  The scale of line 117 divides by the plain norm of
  \<^verbatim>\<open>fx\<close>: on zero descriptors every entry of the scale is \<open>0 / 0\<close>, a NaN.  And the
  guard of \<^verbatim>\<open>channel_equi_vec_normalize\<close> is not an added \<open>1e-6\<close>: one channel
  \<open>(1e-13, 0, 0)\<close> is mapped to \<open>(1e-2, 0, 0)\<close>, the vector divided by \<open>1e-12\<close> times
  the norm divided by \<open>1e-12\<close>.
\<close>

theorem Alignment_scale_unguarded_counterexample:
  "snd (Alignment_forward svd_of_orthogonal [zero_descriptor] [zero_descriptor]) ! 0
     = [NaN, NaN, NaN]
   \<and> channel_equi_vec_normalize tiny_feature = [(1 / 100, 0, 0)]"
proof -
  have a: "snd (Alignment_forward svd_of_orthogonal [zero_descriptor] [zero_descriptor]) ! 0
     = [NaN, NaN, NaN]"
    by (simp add: Alignment_forward_def Alignment_sample_def svd_of_orthogonal_def norm_dim1_def
      zero_descriptor_def tdiv_def Let_def)
  have c: "channel_equi_vec_normalize tiny_feature = [(1 / 100, 0, 0)]"
    by (simp add: channel_equi_vec_normalize_eq tiny_feature_def norm3_first_axis)
  show ?thesis using a c by simp
qed

section \<open>The cross-context attention\<close>

lemma concat_chunks:
  assumes "length xs = n * m"
  shows "concat (map (\<lambda>h. take m (drop (h * m) xs)) [0..<n]) = xs"
  using assms
proof (induction n arbitrary: xs rule: nat.induct)
  case zero
  then show ?case by simp
next
  case (Suc n)
  have "concat (map (\<lambda>h. take m (drop (h * m) xs)) [0..<n])
      = concat (map (\<lambda>h. take m (drop (h * m) (take (n * m) xs))) [0..<n])"
  proof -
    have "take m (drop (h * m) xs) = take m (drop (h * m) (take (n * m) xs))" if "h < n" for h
    proof -
      have "h * m + m \<le> n * m" using that
        by (metis Suc_leI mult_Suc mult_le_mono1 add.commute)
      then show ?thesis by (simp add: drop_take min_def)
    qed
    then show ?thesis by (auto intro!: arg_cong [where f = concat])
  qed
  also have "\<dots> = take (n * m) xs"
    by (rule Suc.IH) (use Suc.prems in simp)
  finally have a: "concat (map (\<lambda>h. take m (drop (h * m) xs)) [0..<n]) = take (n * m) xs" .
  have b: "take m (drop (n * m) xs) = drop (n * m) xs"
    using Suc.prems by simp
  show ?case by (simp add: a b)
qed

lemma softmax_pair_lt:
  assumes "a < b"
  shows "softmax [a, b] ! 0 < 1 / 2" and "1 / 2 < softmax [b, a] ! 0"
proof -
  have e: "exp a < exp b" using assms by simp
  have p: "0 < exp a + exp b" by (simp add: add_pos_pos)
  show "softmax [a, b] ! 0 < 1 / 2"
    using e p by (simp add: softmax_def field_simps)
  have p': "0 < exp b + exp a" by (simp add: add_pos_pos)
  show "1 / 2 < softmax [b, a] ! 0"
    using e p' by (simp add: softmax_def field_simps)
qed

lemma qk_example:
  "qk_point query_two_channels keys_two_neighbours = [[9 / 25, 12 / 25], [16 / 25, 12 / 25]]"
  by (simp add: qk_point_def query_two_channels_def keys_two_neighbours_def upt_rec)

lemma length_qk_point: "length (qk_point Qx Ky) = length Qx"
  by (simp add: qk_point_def)

text \<open>
  When the channel count is a multiple of the head size, the view into heads, the
  division, the softmax, the expansion and the view back amount to one softmax per
  channel row of \<^verbatim>\<open>qk\<close>: nothing is summed over the channels of a head.
\<close>

lemma attention_per_channel:
  assumes "0 < m" "length Qx = n * m"
  shows "attention m Qx Ky =
     Inr (map (\<lambda>row. softmax (map (\<lambda>s. s / sqrt (real (3 * length Qx))) row)) (qk_point Qx Ky))"
proof -
  define qk where "qk = qk_point Qx Ky"
  define f where "f = (\<lambda>s :: real. s / sqrt (real (3 * length qk)))"
  define g where "g = (\<lambda>row. softmax (map f row))"
  define heads where "heads = map (\<lambda>h. take m (drop (h * m) qk)) [0..<n]"
  have l: "length qk = n * m" using assms(2) by (simp add: qk_def length_qk_point)
  have d: "length qk div m = n" using assms(1) l by simp
  have hl: "length h = m" if hin: "h \<in> set heads" for h
  proof -
    obtain i where i: "i < n" "h = take m (drop (i * m) qk)"
      using hin by (auto simp: heads_def)
    have "i * m + m \<le> n * m" using i(1)
      by (metis Suc_leI mult_Suc mult_le_mono1 add.commute)
    then show ?thesis using l i(2) by simp
  qed
  have pt: "expand m (map softmax (map (map f) h)) = map g h" if hin: "h \<in> set heads" for h
    using hl [OF hin] by (simp add: expand_def g_def)
  have ex: "map (expand m) (map (map softmax) (map (map (map f)) heads)) = map (map g) heads"
    using pt by simp
  have "concat (map (map g) heads) = map g (concat heads)"
    by (simp add: map_concat)
  also have "concat heads = qk"
    unfolding heads_def using l by (rule concat_chunks)
  finally have c: "concat (map (map g) heads) = map g qk" .
  have nz: "m \<noteq> 0" using assms(1) by simp
  have ok: "\<not> (length qk div m * m \<noteq> length qk)" using l d by simp
  have "attention m Qx Ky
      = Inr (concat (map (expand m) (map (map softmax) (map (map (map f)) heads))))"
    unfolding attention_def Let_def qk_def [symmetric] f_def [symmetric] d heads_def [symmetric]
    using nz ok unfolding d by (simp only: if_False)
  then have "attention m Qx Ky = Inr (map g qk)"
    by (simp only: ex c)
  then show ?thesis by (simp add: g_def f_def qk_def length_qk_point)
qed

text \<open>
  Claim C5 fails on the code.  With a head of two channels, a query and keys of two
  channels and two neighbours, the two channels of the one head receive different
  weights for the first neighbour (below and above one half), whereas one score per head
  group, as the claim has it, gives both channels the same weights.
\<close>

theorem attention_differs_within_head:
  "attention 2 query_two_channels keys_two_neighbours
     = Inr [softmax [9 / 25 / sqrt 6, 12 / 25 / sqrt 6],
            softmax [16 / 25 / sqrt 6, 12 / 25 / sqrt 6]]
   \<and> softmax [9 / 25 / sqrt 6, 12 / 25 / sqrt 6] ! 0 < 1 / 2
   \<and> 1 / 2 < softmax [16 / 25 / sqrt 6, 12 / 25 / sqrt 6] ! 0
   \<and> spec_attention 2 query_two_channels keys_two_neighbours
     = [softmax [1 / sqrt 6, 24 / 25 / sqrt 6], softmax [1 / sqrt 6, 24 / 25 / sqrt 6]]"
proof -
  have s: "(0::real) < sqrt 6" by simp
  have a: "attention 2 query_two_channels keys_two_neighbours
     = Inr [softmax [9 / 25 / sqrt 6, 12 / 25 / sqrt 6],
            softmax [16 / 25 / sqrt 6, 12 / 25 / sqrt 6]]"
    by (simp add: attention_def qk_example expand_def Let_def upt_rec)
  have lt1: "(9::real) / 25 / sqrt 6 < 12 / 25 / sqrt 6"
    using s by (simp add: divide_strict_right_mono)
  have lt2: "(12::real) / 25 / sqrt 6 < 16 / 25 / sqrt 6"
    using s by (simp add: divide_strict_right_mono)
  have sp: "spec_attention 2 query_two_channels keys_two_neighbours
     = [softmax [1 / sqrt 6, 24 / 25 / sqrt 6], softmax [1 / sqrt 6, 24 / 25 / sqrt 6]]"
  proof -
    have l: "length keys_two_neighbours = 2" by (simp add: keys_two_neighbours_def)
    show ?thesis by (simp add: spec_attention_def qk_example l Let_def upt_rec)
  qed
  show ?thesis
    using a softmax_pair_lt(1) [OF lt1] softmax_pair_lt(2) [OF lt2] sp by simp
qed

section \<open>The shapes of the forward pass\<close>

lemma then_do_Inr_iff:
  "then_do r f = Inr v \<longleftrightarrow> (\<exists>u. r = Inr u \<and> f u = Inr v)"
  by (cases r) (simp_all add: then_do_def)

lemma get_Inr_iff: "get xs i = Inr v \<longleftrightarrow> i < length xs \<and> v = xs ! i"
  by (auto simp: get_def)

lemma VNLinearLeakyReLU_shape_Inr:
  assumes "VNLinearLeakyReLU_shape cin cout s = Inr s'"
  shows "\<exists>B rest. s = B # cin # 3 # rest \<and> s' = B # cout # 3 # rest"
  using assms
  by (auto simp: VNLinearLeakyReLU_shape_def split: list.splits if_splits)

lemma get_graph_feature_shape_Inr:
  assumes "get_graph_feature_shape s k = Inr g"
  shows "\<exists>B C N. s = [B, C, 3, N] \<and> k \<le> N \<and> g = [B, 2 * C, 3, N, k]"
  using assms
  by (auto simp: get_graph_feature_shape_def split: list.splits if_splits)

lemma VNDGCNN_shape_Inr:
  assumes "VNDGCNN_shape in_feat out_feat k s = Inr s'"
  shows "\<exists>b n. s = [b, in_feat, 3, n] \<and> s' = [b, out_feat, 3, n]"
proof -
  from assms obtain g h where
    1: "get_graph_feature_shape s k = Inr g" and
    2: "VNLinearLeakyReLU_shape (2 * in_feat) out_feat g = Inr h" and
    3: "s' = butlast h"
    by (auto simp: VNDGCNN_shape_def then_do_Inr_iff)
  from 1 obtain B C N where g: "s = [B, C, 3, N]" "g = [B, 2 * C, 3, N, k]"
    using get_graph_feature_shape_Inr by blast
  from 2 obtain B' rest where h: "g = B' # (2 * in_feat) # 3 # rest" "h = B' # out_feat # 3 # rest"
    using VNLinearLeakyReLU_shape_Inr by blast
  show ?thesis using g h 3 by auto
qed

lemma CrossContext_shape_Inr:
  assumes "CrossContext_shape feature_dim head_c k s = Inr s'"
  shows "s' = s"
proof -
  from assms obtain Qx y Ky where
    "(case Ky of
         [B, C, d, N, K] \<Rightarrow>
           if head_c = 0 then Inl ZeroDivisionError
           else if B * (C div head_c) * head_c * N * K \<noteq> B * C * N * K
           then Inl RuntimeError
           else Inr s
       | _ \<Rightarrow> Inl ShapeError) = Inr s'"
    by (auto simp: CrossContext_shape_def then_do_Inr_iff)
  then show ?thesis by (auto split: list.splits if_splits)
qed

lemma GlobalContext_shape_Inr:
  assumes "GlobalContext_shape mlp_in mlp_out [b, c, 3, n] = Inr s'"
  shows "s' = [b, mlp_out, 3, n]"
proof -
  have "cat_dim1 [[b, c, 3, n], [b, c, 3, n]] = Inr [b, c + c, 3, n]"
    by (simp add: cat_dim1_def)
  with assms have "VNLinearLeakyReLU_shape mlp_in mlp_out [b, c + c, 3, n] = Inr s'"
    by (simp add: GlobalContext_shape_def then_do_def)
  then show ?thesis using VNLinearLeakyReLU_shape_Inr by fastforce
qed

lemma InvariantMapping_shape_Inr:
  assumes "InvariantMapping_shape s tk = Inr s'"
  shows "\<exists>b c n p k. s = [b, c, n, p] \<and> s' = [b, c, 3, k]"
  using assms
  by (auto simp: InvariantMapping_shape_def Let_def split: list.splits if_splits)

lemma cat_dim1_Inr:
  assumes "cat_dim1 (s # ss) = Inr s'"
  shows "2 \<le> length s \<and> length s' = length s \<and> hd s' = hd s
     \<and> (\<forall>t\<in>set ss. length t = length s) \<and> (\<forall>i. i \<noteq> 1 \<longrightarrow> s' ! i = s ! i)"
proof -
  from assms have l: "2 \<le> length s"
    and a: "list_all (\<lambda>t. length t = length s \<and> t[1 := 0] = s[1 := 0]) ss"
    and r: "s' = s[1 := sum_list (map (\<lambda>t. t ! 1) (s # ss))]"
    by (auto simp: cat_dim1_def split: if_splits)
  have "hd s' = hd s" using l r by (cases s) auto
  then show ?thesis using l a r by (auto simp: list_all_iff)
qed

lemma EquivariantFeatureExtraction_shape_Inr:
  assumes "EquivariantFeatureExtraction_shape fe s = Inr s'"
  shows "\<exists>b c n c'. s = [b, c, 3, n] \<and> s' = [b, c', 3, n]"
proof -
  obtain in_feat out_feat k where fe: "fe = (in_feat, out_feat, k)"
    by (cases fe) auto
  from assms obtain f1 f2 where
    1: "VNDGCNN_shape in_feat out_feat k s = Inr f1" and
    2: "CrossContext_shape out_feat 16 k f1 = Inr f2" and
    3: "GlobalContext_shape (out_feat * 2) out_feat f2 = Inr s'"
    by (auto simp: EquivariantFeatureExtraction_shape_def fe then_do_Inr_iff)
  from 1 obtain b n where s: "s = [b, in_feat, 3, n]" and f1: "f1 = [b, out_feat, 3, n]"
    using VNDGCNN_shape_Inr by blast
  from 2 have f2: "f2 = f1"
    by (rule CrossContext_shape_Inr)
  from 3 have "s' = [b, out_feat, 3, n]"
    unfolding f2 f1 by (rule GlobalContext_shape_Inr)
  with s show ?thesis by blast
qed

lemma block_shape_Inr:
  assumes "block_shape fe tks i s = Inr s'"
  shows "i < length tks \<and> (\<exists>b c n c' k. s = [b, c, 3, n] \<and> s' = [b, c', 3, k])"
proof -
  from assms obtain f tk where
    1: "EquivariantFeatureExtraction_shape fe s = Inr f" and
    2: "get tks i = Inr tk" and
    3: "InvariantMapping_shape f tk = Inr s'"
    by (auto simp: block_shape_def then_do_Inr_iff)
  from 1 obtain b c n c' where "s = [b, c, 3, n]" "f = [b, c', 3, n]"
    using EquivariantFeatureExtraction_shape_Inr by blast
  moreover from 3 obtain b' c'' n' p k where "f = [b', c'', n', p]" "s' = [b', c'', 3, k]"
    using InvariantMapping_shape_Inr by blast
  ultimately show ?thesis using 2 by (auto simp: get_Inr_iff)
qed

lemma pool_loop_four:
  "pool_loop [0..<n] [a, b, c, d] =
     (if n = 0 then Inr [a, b, c, d]
      else if n = 1 then Inr [mean_pool_shape a, b, c, d]
      else if n = 2 then Inr [mean_pool_shape a, mean_pool_shape b, c, d]
      else if n = 3 then Inr [mean_pool_shape a, mean_pool_shape b, mean_pool_shape c, d]
      else if n = 4 then Inr [mean_pool_shape a, mean_pool_shape b, mean_pool_shape c,
                              mean_pool_shape d]
      else Inl IndexError)"
proof -
  consider "n = 0" | "n = 1" | "n = 2" | "n = 3" | "n = 4" | "5 \<le> n" by linarith
  then show ?thesis
  proof cases
    case 6
    then have "[0..<n] = 0 # 1 # 2 # 3 # 4 # [5..<n]"
      by (simp add: upt_conv_Cons numeral_eq_Suc)
    then show ?thesis using 6 by simp
  qed (simp_all add: upt_conv_Cons numeral_eq_Suc)
qed

lemma HEGN_forward_shape_Inr:
  assumes "HEGN_forward_shape self x = Inr out"
  shows "\<exists>fx fx1 fx2 fx3 fx4 fx_block f.
     unsqueeze1 x = Inr fx
   \<and> block_shape (feature_extraction1 self) (self_topk self) 0 fx = Inr fx1
   \<and> block_shape (feature_extraction2 self) (self_topk self) 1 fx1 = Inr fx2
   \<and> block_shape (feature_extraction3 self) (self_topk self) 2 fx2 = Inr fx3
   \<and> block_shape (feature_extraction4 self) (self_topk self) 3 fx3 = Inr fx4
   \<and> pool_loop [0..<nat (self_num_blocks self)] [fx1, fx2, fx3, fx4] = Inr fx_block
   \<and> HierarchicalAggregation_shape (hierarchical_aggregation self) fx_block = Inr f
   \<and> Alignment_shape f f = Inr out"
  using assms unfolding HEGN_forward_shape_def then_do_Inr_iff by blast

lemma HierarchicalAggregation_shape_Inr:
  assumes "HierarchicalAggregation_shape ha (s # ss) = Inr f"
  shows "length f = length s \<and> hd f = hd s \<and> 3 \<le> length s \<and> f ! 2 = 3
     \<and> (\<forall>t\<in>set ss. length t = length s)"
proof -
  obtain in_feat out_feat where ha: "ha = (in_feat, out_feat)" by (cases ha) auto
  from assms obtain t where
    1: "cat_dim1 (s # ss) = Inr t" and
    2: "VNLinearLeakyReLU_shape in_feat out_feat t = Inr f"
    by (auto simp: HierarchicalAggregation_shape_def ha then_do_Inr_iff)
  note c = cat_dim1_Inr [OF 1]
  from 2 obtain B rest where t: "t = B # in_feat # 3 # rest" "f = B # out_feat # 3 # rest"
    using VNLinearLeakyReLU_shape_Inr by blast
  show ?thesis using c t by auto
qed

lemma Alignment_shape_Inr:
  assumes "Alignment_shape f f = Inr out"
  shows "length f = 3 \<and> out = ([hd f, f ! 2, f ! 2], [hd f, f ! 2])"
  using assms
  by (auto simp: Alignment_shape_def broadcast_dim_def then_do_def split: list.splits if_splits)

lemma aggregate_and_align:
  assumes p: "pool_loop [0..<n] [[b1, c1, 3, k1], [b2, c2, 3, k2], [b3, c3, 3, k3], [b4, c4, 3, k4]]
      = Inr fx_block"
    and h: "HierarchicalAggregation_shape ha fx_block = Inr f"
    and a: "Alignment_shape f f = Inr out"
  shows "n = 4 \<and> out = ([b1, 3, 3], [b1, 3])"
proof -
  note al = Alignment_shape_Inr [OF a]
  consider "n = 0" | "n = 1" | "n = 2" | "n = 3" | "n = 4" | "5 \<le> n" by linarith
  then show ?thesis
  proof cases
    case 1
    with p have "fx_block = [[b1, c1, 3, k1], [b2, c2, 3, k2], [b3, c3, 3, k3], [b4, c4, 3, k4]]"
      by (simp add: pool_loop_four)
    with h have "length f = 4" using HierarchicalAggregation_shape_Inr by fastforce
    with al show ?thesis by simp
  next
    case 2
    with p have "fx_block = [[b1, c1, 3], [b2, c2, 3, k2], [b3, c3, 3, k3], [b4, c4, 3, k4]]"
      by (simp add: pool_loop_four mean_pool_shape_def)
    with h show ?thesis using HierarchicalAggregation_shape_Inr by fastforce
  next
    case 3
    with p have "fx_block = [[b1, c1, 3], [b2, c2, 3], [b3, c3, 3, k3], [b4, c4, 3, k4]]"
      by (simp add: pool_loop_four mean_pool_shape_def)
    with h show ?thesis using HierarchicalAggregation_shape_Inr by fastforce
  next
    case 4
    with p have "fx_block = [[b1, c1, 3], [b2, c2, 3], [b3, c3, 3], [b4, c4, 3, k4]]"
      by (simp add: pool_loop_four mean_pool_shape_def)
    with h show ?thesis using HierarchicalAggregation_shape_Inr by fastforce
  next
    case 5
    with p have "fx_block = [[b1, c1, 3], [b2, c2, 3], [b3, c3, 3], [b4, c4, 3]]"
      by (simp add: pool_loop_four mean_pool_shape_def)
    with h have "hd f = b1 \<and> f ! 2 = 3" using HierarchicalAggregation_shape_Inr by fastforce
    with al 5 show ?thesis by simp
  next
    case 6
    with p show ?thesis by (simp add: pool_loop_four)
  qed
qed

lemma HEGN_forward_shape_result:
  assumes "HEGN_forward_shape self x = Inr out"
  shows "nat (self_num_blocks self) = 4 \<and> 4 \<le> length (self_topk self)
     \<and> (\<exists>B N. x = [B, 3, N] \<and> out = ([B, 3, 3], [B, 3]))"
proof -
  from HEGN_forward_shape_Inr [OF assms] obtain fx fx1 fx2 fx3 fx4 fx_block f where
    u: "unsqueeze1 x = Inr fx" and
    b1: "block_shape (feature_extraction1 self) (self_topk self) 0 fx = Inr fx1" and
    b2: "block_shape (feature_extraction2 self) (self_topk self) 1 fx1 = Inr fx2" and
    b3: "block_shape (feature_extraction3 self) (self_topk self) 2 fx2 = Inr fx3" and
    b4: "block_shape (feature_extraction4 self) (self_topk self) 3 fx3 = Inr fx4" and
    p: "pool_loop [0..<nat (self_num_blocks self)] [fx1, fx2, fx3, fx4] = Inr fx_block" and
    h: "HierarchicalAggregation_shape (hierarchical_aggregation self) fx_block = Inr f" and
    a: "Alignment_shape f f = Inr out"
    by blast
  from block_shape_Inr [OF b1] obtain B c N c1 k1 where
    s0: "fx = [B, c, 3, N]" and s1: "fx1 = [B, c1, 3, k1]" by blast
  from block_shape_Inr [OF b2] s1 obtain c2 k2 where s2: "fx2 = [B, c2, 3, k2]" by auto
  from block_shape_Inr [OF b3] s2 obtain c3 k3 where s3: "fx3 = [B, c3, 3, k3]" by auto
  from block_shape_Inr [OF b4] s3 obtain c4 k4 where s4: "fx4 = [B, c4, 3, k4]" by auto
  have t: "4 \<le> length (self_topk self)" using block_shape_Inr [OF b4] by simp
  from u s0 have x: "x = [B, 3, N]"
    by (cases x) (auto simp: unsqueeze1_def split: if_splits)
  from aggregate_and_align [OF p [unfolded s1 s2 s3 s4] h a]
  show ?thesis using t x by simp
qed

lemma HEGN_init_Inr:
  assumes "HEGN_init a = Inr self"
  shows "self_num_blocks self = num_blocks a \<and> self_topk self = topk a
     \<and> 4 \<le> length (vngcnn_in a) \<and> 4 \<le> length (vngcnn_out a) \<and> 4 \<le> length (n_knn a)"
proof -
  from assms obtain fe4 where
    "EquivariantFeatureExtraction_init (vngcnn_in a) (vngcnn_out a) (n_knn a) 3 = Inr fe4"
    and "self_num_blocks self = num_blocks a" and "self_topk self = topk a"
    by (auto simp: HEGN_init_def then_do_Inr_iff)
  then show ?thesis
    by (auto simp: EquivariantFeatureExtraction_init_def then_do_Inr_iff get_Inr_iff)
qed

text \<open>
  Claim C10.  The forward pass runs four blocks and collects four outputs, pools the
  first \<^verbatim>\<open>num_blocks\<close> of them and concatenates all four.  If the model was built
  from the configuration \<open>a\<close> and the forward pass returns, then \<^verbatim>\<open>num_blocks\<close> is 4
  and every configuration sequence has at least four elements.
\<close>

theorem HEGN_forward_needs_four_blocks:
  assumes "HEGN_init a = Inr self" and "HEGN_forward_shape self x = Inr out"
  shows "num_blocks a = 4 \<and> 4 \<le> length (vngcnn_in a) \<and> 4 \<le> length (vngcnn_out a)
     \<and> 4 \<le> length (n_knn a) \<and> 4 \<le> length (topk a)"
  using HEGN_init_Inr [OF assms(1)] HEGN_forward_shape_result [OF assms(2)] by auto

lemma then_do_Inr: "then_do (Inr v) f = f v"
  by (simp add: then_do_def)

lemma HEGN_init_example: "HEGN_init args_example = Inr HEGN_example"
  by (simp add: HEGN_init_def args_example_def HEGN_example_def
      EquivariantFeatureExtraction_init_def then_do_def get_def get_last_def)

lemmas shape_defs =
  EquivariantFeatureExtraction_shape_def VNDGCNN_shape_def
  get_graph_feature_shape_def VNLinearLeakyReLU_shape_def CrossContext_shape_def
  GlobalContext_shape_def cat_dim1_def block_shape_def InvariantMapping_shape_def get_def
  then_do_Inr Let_def

lemma HEGN_forward_example:
  "HEGN_forward_shape HEGN_example [2, 3, 64] = Inr ([2, 3, 3], [2, 3])"
proof -
  have b1: "block_shape (1, 16, 4) [2, 2, 2, 2] 0 [2, 1, 3, 64] = Inr [2, 16, 3, 32]"
    by (simp add: shape_defs)
  have b2: "block_shape (16, 32, 4) [2, 2, 2, 2] 1 [2, 16, 3, 32] = Inr [2, 32, 3, 16]"
    by (simp add: shape_defs)
  have b3: "block_shape (32, 32, 4) [2, 2, 2, 2] 2 [2, 32, 3, 16] = Inr [2, 32, 3, 8]"
    by (simp add: shape_defs)
  have b4: "block_shape (32, 16, 4) [2, 2, 2, 2] 3 [2, 32, 3, 8] = Inr [2, 16, 3, 4]"
    by (simp add: shape_defs)
  have p: "pool_loop [0..<4] [[2, 16, 3, 32], [2, 32, 3, 16], [2, 32, 3, 8], [2, 16, 3, 4]]
      = Inr [[2, 16, 3], [2, 32, 3], [2, 32, 3], [2, 16, 3]]"
    by (simp add: pool_loop_four mean_pool_shape_def)
  have h: "HierarchicalAggregation_shape (96, 16) [[2, 16, 3], [2, 32, 3], [2, 32, 3], [2, 16, 3]]
      = Inr [2, 16, 3]"
    by (simp add: HierarchicalAggregation_shape_def cat_dim1_def VNLinearLeakyReLU_shape_def
        then_do_Inr)
  have a: "Alignment_shape [2, 16, 3] [2, 16, 3] = Inr ([2, 3, 3], [2, 3])"
    by (simp add: Alignment_shape_def broadcast_dim_def then_do_Inr)
  show ?thesis
    by (simp add: HEGN_forward_shape_def HEGN_example_def unsqueeze1_def then_do_Inr
        b1 b2 b3 b4 p h a del: One_nat_def)
qed

theorem HEGN_forward_needs_four_blocks_witness:
  "HEGN_init args_example = Inr HEGN_example
   \<and> HEGN_forward_shape HEGN_example [2, 3, 64] = Inr ([2, 3, 3], [2, 3])
   \<and> num_blocks args_example = 4 \<and> 4 \<le> length (topk args_example)"
  using HEGN_forward_needs_four_blocks [OF HEGN_init_example HEGN_forward_example]
    HEGN_init_example HEGN_forward_example
  by simp

lemma HEGN_forward_small:
  "HEGN_forward_shape HEGN_small [2, 3, 3] = Inr ([2, 3, 3], [2, 3])"
proof -
  have b1: "block_shape (1, 16, 2) [1, 1, 1, 1] 0 [2, 1, 3, 3] = Inr [2, 16, 3, 3]"
    by (simp add: shape_defs)
  have b2: "block_shape (16, 16, 2) [1, 1, 1, 1] 1 [2, 16, 3, 3] = Inr [2, 16, 3, 3]"
    by (simp add: shape_defs)
  have b3: "block_shape (16, 16, 2) [1, 1, 1, 1] 2 [2, 16, 3, 3] = Inr [2, 16, 3, 3]"
    by (simp add: shape_defs)
  have b4: "block_shape (16, 16, 2) [1, 1, 1, 1] 3 [2, 16, 3, 3] = Inr [2, 16, 3, 3]"
    by (simp add: shape_defs)
  have p: "pool_loop [0..<4] [[2, 16, 3, 3], [2, 16, 3, 3], [2, 16, 3, 3], [2, 16, 3, 3]]
      = Inr [[2, 16, 3], [2, 16, 3], [2, 16, 3], [2, 16, 3]]"
    by (simp add: pool_loop_four mean_pool_shape_def)
  have h: "HierarchicalAggregation_shape (64, 16) [[2, 16, 3], [2, 16, 3], [2, 16, 3], [2, 16, 3]]
      = Inr [2, 16, 3]"
    by (simp add: HierarchicalAggregation_shape_def cat_dim1_def VNLinearLeakyReLU_shape_def
        then_do_Inr)
  have a: "Alignment_shape [2, 16, 3] [2, 16, 3] = Inr ([2, 3, 3], [2, 3])"
    by (simp add: Alignment_shape_def broadcast_dim_def then_do_Inr)
  show ?thesis
    by (simp add: HEGN_forward_shape_def HEGN_small_def unsqueeze1_def then_do_Inr
        b1 b2 b3 b4 p h a del: One_nat_def)
qed


section \<open>The loss\<close>

lemma norm3_pow2: "(norm3 v)\<^sup>2 = dot3 v v"
  by (simp add: norm3_def dot3_self_nonneg)

lemma frob_norm_pow2:
  "(frob_norm (r0, r1, r2))\<^sup>2 = dot3 r0 r0 + dot3 r1 r1 + dot3 r2 r2"
proof -
  have "0 \<le> dot3 r0 r0 + dot3 r1 r1 + dot3 r2 r2"
    by (simp add: dot3_self_nonneg)
  then show ?thesis by (simp add: frob_norm_def)
qed

lemma registration_loss_sample:
  "(frob_norm (mat_sub (matmul (mat_T R_gt) R) eye3))\<^sup>2
     + (norm3 (vsub (diagonal S) (diagonal S_gt)))\<^sup>2
     + (norm3 (vsub t t_gt))\<^sup>2
   = spec_registration_loss R S t R_gt S_gt t_gt"
proof -
  obtain r11 r12 r13 r21 r22 r23 r31 r32 r33 where
    R: "R = ((r11, r12, r13), (r21, r22, r23), (r31, r32, r33))"
    by (cases R rule: mat_T.cases) auto
  obtain g11 g12 g13 g21 g22 g23 g31 g32 g33 where
    G: "R_gt = ((g11, g12, g13), (g21, g22, g23), (g31, g32, g33))"
    by (cases R_gt rule: mat_T.cases) auto
  obtain s11 s12 s13 s21 s22 s23 s31 s32 s33 where
    S: "S = ((s11, s12, s13), (s21, s22, s23), (s31, s32, s33))"
    by (cases S rule: mat_T.cases) auto
  obtain q11 q12 q13 q21 q22 q23 q31 q32 q33 where
    Q: "S_gt = ((q11, q12, q13), (q21, q22, q23), (q31, q32, q33))"
    by (cases S_gt rule: mat_T.cases) auto
  obtain t1 t2 t3 where T: "t = (t1, t2, t3)" by (cases t) auto
  obtain u1 u2 u3 where U: "t_gt = (u1, u2, u3)" by (cases t_gt) auto
  show ?thesis
    unfolding R G S Q T U
    by (simp add: frob_norm_pow2 norm3_pow2 eye3_def) (simp add: power2_eq_square)
qed

lemma L_reg_eq_spec:
  assumes "length S = length R" "length S_gt = length R"
  shows "L_reg R S t R_gt S_gt t_gt =
     map (\<lambda>b. spec_registration_loss (R ! b) (S ! b) (t ! b) (R_gt ! b) (S_gt ! b) (t_gt ! b))
       [0..<length R]"
  using assms by (simp add: L_reg_def Let_def registration_loss_sample)

lemma mean_list_cases:
  "mean_list xs = (if xs = [] then NaN else Finite (sum_list xs / real (length xs)))"
  by (simp add: mean_list_def tdiv_def)

text \<open>
  Claim C7.  For a batch in which every tensor has the batch size of \<^verbatim>\<open>R\<close>, the loss
  module returns the triple (mean registration loss plus chamfer distance, mean
  registration loss, chamfer distance).  The mean registration loss is the sum over the
  batch of \<open>spec_registration_loss\<close> divided by the batch size (a NaN on the empty batch,
  as every mean of no element): squared Frobenius norm of \<^verbatim>\<open>R_gt^T R - I\<close>, plus the
  squared distance of the diagonals of the two scale matrices, plus the squared distance
  of the translations.
\<close>

theorem HEGN_Loss_forward_formula:
  assumes "length S = length R" "length S_gt = length R"
    and "length t = length R" "length R_gt = length R" "length t_gt = length R"
  shows "HEGN_Loss_forward x_aligned y R S t R_gt S_gt t_gt =
     (tadd (if R = [] then NaN
            else Finite ((\<Sum>b\<leftarrow>[0..<length R]. spec_registration_loss
                (R ! b) (S ! b) (t ! b) (R_gt ! b) (S_gt ! b) (t_gt ! b)) / real (length R)))
        (chamfer_distance x_aligned y),
      if R = [] then NaN
      else Finite ((\<Sum>b\<leftarrow>[0..<length R]. spec_registration_loss
                (R ! b) (S ! b) (t ! b) (R_gt ! b) (S_gt ! b) (t_gt ! b)) / real (length R)),
      chamfer_distance x_aligned y)"
  using L_reg_eq_spec [OF assms(1,2)]
  by (simp add: HEGN_Loss_forward_def Let_def mean_list_cases)

theorem HEGN_Loss_forward_formula_witness:
  "HEGN_Loss_forward two_clouds_moved two_clouds_origin
     [quarter_turn, eye3] [scale_with_shear, eye3] [(1, 0, 0), (0, 0, 0)]
     [eye3, eye3] [eye3, eye3] [(0, 0, 0), (0, 2, 0)]
   = (Finite 6, Finite 5, Finite 1)"
proof -
  have c: "chamfer_distance two_clouds_moved two_clouds_origin = Finite 1"
    by (simp add: chamfer_distance_def chamfer_one_sided_def mean_list_cases
        two_clouds_moved_def two_clouds_origin_def sqdist_def)
  have r0: "spec_registration_loss quarter_turn scale_with_shear (1, 0, 0) eye3 eye3 (0, 0, 0) = 6"
    by (simp add: quarter_turn_def scale_with_shear_def eye3_def)
  have r1: "spec_registration_loss eye3 eye3 (0, 0, 0) eye3 eye3 (0, 2, 0) = 4"
    by (simp add: eye3_def)
  have u: "[0..<2] = [0, 1]" by (simp add: upt_rec)
  show ?thesis
    using HEGN_Loss_forward_formula
      [where R = "[quarter_turn, eye3]" and S = "[scale_with_shear, eye3]"
         and t = "[(1, 0, 0), (0, 0, 0)]" and R_gt = "[eye3, eye3]"
         and S_gt = "[eye3, eye3]" and t_gt = "[(0, 0, 0), (0, 2, 0)]"
         and x_aligned = two_clouds_moved and y = two_clouds_origin]
    by (simp add: c r0 r1 u)
qed














section \<open>The shapes that the forward pass returns\<close>

lemma EquivariantFeatureExtraction_shape_fits:
  assumes "16 dvd out" "k \<le> N"
  shows "EquivariantFeatureExtraction_shape (inc, out, k) [B, inc, 3, N] = Inr [B, out, 3, N]"
proof -
  have v: "out div 16 * 16 = out" using assms(1) by simp
  have 1: "VNDGCNN_shape inc out k [B, inc, 3, N] = Inr [B, out, 3, N]"
    using assms(2)
    by (simp add: VNDGCNN_shape_def get_graph_feature_shape_def VNLinearLeakyReLU_shape_def
        then_do_Inr)
  have 2: "CrossContext_shape out 16 k [B, out, 3, N] = Inr [B, out, 3, N]"
    using assms(2) v
    by (simp add: CrossContext_shape_def get_graph_feature_shape_def VNLinearLeakyReLU_shape_def
        then_do_Inr)
  have 3: "GlobalContext_shape (out * 2) out [B, out, 3, N] = Inr [B, out, 3, N]"
    by (simp add: GlobalContext_shape_def cat_dim1_def VNLinearLeakyReLU_shape_def then_do_Inr)
  show ?thesis
    by (simp add: EquivariantFeatureExtraction_shape_def 1 2 3 then_do_Inr)
qed

lemma block_shape_fits:
  assumes "16 dvd out" "k \<le> N" "get tks i = Inr tk" "0 < tk" "N' = nat (int N div tk)"
  shows "block_shape (inc, out, k) tks i [B, inc, 3, N] = Inr [B, out, 3, N']"
proof -
  have k0: "0 \<le> int N div tk" using assms(4) by (simp add: pos_imp_zdiv_nonneg_iff)
  have k1: "int N div tk \<le> int N"
    using assms(4) by (metis int_one_le_iff_zero_less of_nat_0_le_iff zdiv_mono2 div_by_1 zero_less_one)
  have "InvariantMapping_shape [B, out, 3, N] tk = Inr [B, out, 3, N']"
    using assms(4) k0 k1 by (simp add: InvariantMapping_shape_def Let_def assms(5))
  then show ?thesis
    by (simp add: block_shape_def EquivariantFeatureExtraction_shape_fits [OF assms(1,2)]
        assms(3) then_do_Inr)
qed

lemma HEGN_forward_shape_fits:
  assumes tp: "0 < t1" "0 < t2" "0 < t3" "0 < t4"
    and dv: "16 dvd o1" "16 dvd o2" "16 dvd o3" "16 dvd o4"
    and ns: "N1 = nat (int N div t1)" "N2 = nat (int N1 div t2)" "N3 = nat (int N2 div t3)"
    and kn: "k1 \<le> N" "k2 \<le> N1" "k3 \<le> N2" "k4 \<le> N3"
  shows "HEGN_forward_shape
      \<lparr> self_num_blocks = 4, self_topk = [t1, t2, t3, t4],
        feature_extraction1 = (1, o1, k1), feature_extraction2 = (o1, o2, k2),
        feature_extraction3 = (o2, o3, k3), feature_extraction4 = (o3, o4, k4),
        hierarchical_aggregation = (o1 + o2 + o3 + o4, ho) \<rparr> [B, 3, N]
     = Inr ([B, 3, 3], [B, 3])"
proof -
  define N4 where "N4 = nat (int N3 div t4)"
  have g: "get [t1, t2, t3, t4] 0 = Inr t1" "get [t1, t2, t3, t4] 1 = Inr t2"
    "get [t1, t2, t3, t4] 2 = Inr t3" "get [t1, t2, t3, t4] 3 = Inr t4"
    by (simp_all add: get_def)
  have u: "unsqueeze1 [B, 3, N] = Inr [B, 1, 3, N]"
    by (simp add: unsqueeze1_def)
  have b1: "block_shape (1, o1, k1) [t1, t2, t3, t4] 0 [B, 1, 3, N] = Inr [B, o1, 3, N1]"
    using dv(1) kn(1) g(1) tp(1) ns(1) by (rule block_shape_fits)
  have b2: "block_shape (o1, o2, k2) [t1, t2, t3, t4] 1 [B, o1, 3, N1] = Inr [B, o2, 3, N2]"
    using dv(2) kn(2) g(2) tp(2) ns(2) by (rule block_shape_fits)
  have b3: "block_shape (o2, o3, k3) [t1, t2, t3, t4] 2 [B, o2, 3, N2] = Inr [B, o3, 3, N3]"
    using dv(3) kn(3) g(3) tp(3) ns(3) by (rule block_shape_fits)
  have b4: "block_shape (o3, o4, k4) [t1, t2, t3, t4] 3 [B, o3, 3, N3] = Inr [B, o4, 3, N4]"
    using dv(4) kn(4) g(4) tp(4) N4_def by (rule block_shape_fits)
  have p: "pool_loop [0..<nat 4] [[B, o1, 3, N1], [B, o2, 3, N2], [B, o3, 3, N3], [B, o4, 3, N4]]
      = Inr [[B, o1, 3], [B, o2, 3], [B, o3, 3], [B, o4, 3]]"
    by (simp add: pool_loop_four mean_pool_shape_def)
  have h: "HierarchicalAggregation_shape (o1 + o2 + o3 + o4, ho)
      [[B, o1, 3], [B, o2, 3], [B, o3, 3], [B, o4, 3]] = Inr [B, ho, 3]"
    by (simp add: HierarchicalAggregation_shape_def cat_dim1_def VNLinearLeakyReLU_shape_def
        then_do_Inr)
  have a: "Alignment_shape [B, ho, 3] [B, ho, 3] = Inr ([B, 3, 3], [B, 3])"
    by (simp add: Alignment_shape_def broadcast_dim_def then_do_Inr)
  show ?thesis
    unfolding HEGN_forward_shape_def
    by (simp only: HEGN.simps u then_do_Inr b1 b2 b3 b4 p h a)
qed

text \<open>
  Claim C3, as the code has it.  Whenever the forward pass returns on two clouds of the
  same shape, the clouds have shape \<^verbatim>\<open>[B, 3, N]\<close> (the coordinate axis before the
  point axis), the rotation has shape \<^verbatim>\<open>[B, 3, 3]\<close> and the scale has shape
  \<^verbatim>\<open>[B, 3]\<close>: three ratios per batch element, not a diagonal matrix.  And the forward
  pass does return these shapes on every pair of clouds of shape \<^verbatim>\<open>[B, 3, N]\<close> when
  the configuration fits: four blocks, positive selection divisors, channel counts that
  start at one, continue with the output of the block before and are multiples of the
  head size 16, neighbour counts not above the number of points that enter the block,
  and the sum of the output channels as the input of the aggregation.
\<close>

theorem HEGN_forward_output_shapes:
  "(HEGN_forward_shape self x = Inr (R, S)
      \<longrightarrow> (\<exists>B' N'. x = [B', 3, N'] \<and> R = [B', 3, 3] \<and> S = [B', 3]))
   \<and> (0 < t1 \<and> 0 < t2 \<and> 0 < t3 \<and> 0 < t4
      \<and> 16 dvd o1 \<and> 16 dvd o2 \<and> 16 dvd o3 \<and> 16 dvd o4
      \<and> N1 = nat (int N div t1) \<and> N2 = nat (int N1 div t2) \<and> N3 = nat (int N2 div t3)
      \<and> k1 \<le> N \<and> k2 \<le> N1 \<and> k3 \<le> N2 \<and> k4 \<le> N3
      \<longrightarrow> HEGN_forward_shape
            \<lparr> self_num_blocks = 4, self_topk = [t1, t2, t3, t4],
              feature_extraction1 = (1, o1, k1), feature_extraction2 = (o1, o2, k2),
              feature_extraction3 = (o2, o3, k3), feature_extraction4 = (o3, o4, k4),
              hierarchical_aggregation = (o1 + o2 + o3 + o4, ho) \<rparr> [B, 3, N]
          = Inr ([B, 3, 3], [B, 3]))"
proof (intro conjI impI)
  assume "HEGN_forward_shape self x = Inr (R, S)"
  from HEGN_forward_shape_result [OF this]
  show "\<exists>B' N'. x = [B', 3, N'] \<and> R = [B', 3, 3] \<and> S = [B', 3]" by auto
next
  assume h: "0 < t1 \<and> 0 < t2 \<and> 0 < t3 \<and> 0 < t4
      \<and> 16 dvd o1 \<and> 16 dvd o2 \<and> 16 dvd o3 \<and> 16 dvd o4
      \<and> N1 = nat (int N div t1) \<and> N2 = nat (int N1 div t2) \<and> N3 = nat (int N2 div t3)
      \<and> k1 \<le> N \<and> k2 \<le> N1 \<and> k3 \<le> N2 \<and> k4 \<le> N3"
  show "HEGN_forward_shape
            \<lparr> self_num_blocks = 4, self_topk = [t1, t2, t3, t4],
              feature_extraction1 = (1, o1, k1), feature_extraction2 = (o1, o2, k2),
              feature_extraction3 = (o2, o3, k3), feature_extraction4 = (o3, o4, k4),
              hierarchical_aggregation = (o1 + o2 + o3 + o4, ho) \<rparr> [B, 3, N]
          = Inr ([B, 3, 3], [B, 3])"
    by (rule HEGN_forward_shape_fits) (use h in blast)+
qed

theorem HEGN_forward_output_shapes_witness:
  "HEGN_forward_shape HEGN_example [2, 3, 64] = Inr ([2, 3, 3], [2, 3])
   \<and> (\<exists>B' N'. [2, 3, 64] = [B', 3, N'] \<and> [2, 3, 3] = [B', 3, 3] \<and> [2 :: nat, 3] = [B', 3])"
proof -
  have e: "HEGN_example =
      \<lparr> self_num_blocks = 4, self_topk = [2, 2, 2, 2],
        feature_extraction1 = (1, 16, 4), feature_extraction2 = (16, 32, 4),
        feature_extraction3 = (32, 32, 4), feature_extraction4 = (32, 16, 4),
        hierarchical_aggregation = (16 + 32 + 32 + 16, 16) \<rparr>"
    by (simp add: HEGN_example_def)
  have c: "(0::int) < 2 \<and> (0::int) < 2 \<and> (0::int) < 2 \<and> (0::int) < 2
      \<and> (16::nat) dvd 16 \<and> (16::nat) dvd 32 \<and> (16::nat) dvd 32 \<and> (16::nat) dvd 16
      \<and> (32::nat) = nat (int 64 div 2) \<and> (16::nat) = nat (int 32 div 2)
      \<and> (8::nat) = nat (int 16 div 2)
      \<and> (4::nat) \<le> 64 \<and> (4::nat) \<le> 32 \<and> (4::nat) \<le> 16 \<and> (4::nat) \<le> 8"
    by simp
  note T = HEGN_forward_output_shapes
    [where ?t1.0 = 2 and ?t2.0 = 2 and ?t3.0 = 2 and ?t4.0 = 2
       and ?o1.0 = 16 and ?o2.0 = 32 and ?o3.0 = 32 and ?o4.0 = 16
       and ?N1.0 = 32 and ?N2.0 = 16 and ?N3.0 = 8 and N = 64
       and ?k1.0 = 4 and ?k2.0 = 4 and ?k3.0 = 4 and ?k4.0 = 4 and ho = 16 and B = 2
       and self = HEGN_example and x = "[2, 3, 64]" and R = "[2, 3, 3]" and S = "[2, 3]"]
  have f: "HEGN_forward_shape HEGN_example [2, 3, 64] = Inr ([2, 3, 3], [2, 3])"
    unfolding e using T c by blast
  moreover have "\<exists>B' N'. [2, 3, 64] = [B', 3, N'] \<and> [2, 3, 3] = [B', 3, 3]
      \<and> [2 :: nat, 3] = [B', 3]"
    using T f by blast
  ultimately show ?thesis by blast
qed

text \<open>
  Claim C3 as stated fails twice.  On two clouds of shape \<^verbatim>\<open>[2, 64, 3]\<close> (\<open>B = 2\<close>,
  \<open>N = 64\<close>, the layout of the claim) the forward pass does not return: the first graph
  feature finds 64 where the vector axis of size 3 has to be.  On two clouds of shape
  \<^verbatim>\<open>[2, 3, 3]\<close> (\<open>B = 2\<close>, \<open>N = 3\<close>) it returns a scale of shape \<^verbatim>\<open>[2, 3]\<close>,
  not \<^verbatim>\<open>[2, 3, 3]\<close>.
\<close>

theorem HEGN_forward_scale_shape_counterexample:
  "HEGN_init args_example = Inr HEGN_example
   \<and> HEGN_forward_shape HEGN_example [2, 64, 3] = Inl ShapeError
   \<and> HEGN_init args_small = Inr HEGN_small
   \<and> HEGN_forward_shape HEGN_small [2, 3, 3] = Inr ([2, 3, 3], [2, 3])
   \<and> HEGN_forward_shape HEGN_small [2, 3, 3] \<noteq> Inr ([2, 3, 3], [2, 3, 3])"
proof -
  have i: "HEGN_init args_small = Inr HEGN_small"
    by (simp add: HEGN_init_def args_small_def HEGN_small_def
        EquivariantFeatureExtraction_init_def then_do_def get_def get_last_def)
  have g: "get_graph_feature_shape [2, c, 64, 3] 4 = Inl ShapeError" for c
    by (simp add: get_graph_feature_shape_def)
  have b: "block_shape (1, 16, 4) [2, 2, 2, 2] 0 [2, 1, 64, 3] = Inl ShapeError"
    by (simp add: block_shape_def EquivariantFeatureExtraction_shape_def VNDGCNN_shape_def g
        then_do_def)
  have e: "HEGN_forward_shape HEGN_example [2, 64, 3] = Inl ShapeError"
    by (simp add: HEGN_forward_shape_def HEGN_example_def unsqueeze1_def b then_do_def
        del: One_nat_def)
  show ?thesis using i e HEGN_init_example HEGN_forward_small by simp
qed

end
